theory Spec2Isabelle
  imports Main "HOL-Library.Multiset"
begin

section \<open>Python strings\<close>

text \<open>
  A Python \<^verbatim>\<open>str\<close> is a sequence of Unicode code points, so a string is a list of
  natural numbers. \<open>cps\<close> reads an ASCII literal as such a string.
\<close>

type_synonym pystr = "nat list"

definition cps :: "string \<Rightarrow> pystr" where
  "cps s = map of_char s"

text \<open>
  What the cleaner takes from outside the repository: BeautifulSoup's text extraction,
  NLTK's English stopword list and WordNet lemmatizer, and the Unicode character database
  for code points beyond ASCII (the ASCII part is written out below). \<open>ucd_lower s i\<close> is
  the lower-casing of the non-ASCII character at index \<open>i\<close> of \<open>s\<close> (one character can
  become several, and capital sigma depends on its neighbours).
\<close>

record env =
  bs4_get_text :: "pystr \<Rightarrow> pystr"
  nltk_stopwords_english :: "pystr list"
  wordnet_lemmatize :: "pystr \<Rightarrow> pystr"
  ucd_isalpha :: "nat \<Rightarrow> bool"
  ucd_isdecimal :: "nat \<Rightarrow> bool"
  ucd_isdigit :: "nat \<Rightarrow> bool"
  ucd_isnumeric :: "nat \<Rightarrow> bool"
  ucd_lower :: "pystr \<Rightarrow> nat \<Rightarrow> pystr"

text \<open>\<^verbatim>\<open>str.isspace\<close>, \<^verbatim>\<open>str.split()\<close>, \<^verbatim>\<open>str.strip()\<close> and the regex class \<^verbatim>\<open>\s\<close> share one
  table of whitespace code points.\<close>

definition is_space :: "nat \<Rightarrow> bool" where
  "is_space c \<longleftrightarrow>
     (0x09 \<le> c \<and> c \<le> 0x0D) \<or> (0x1C \<le> c \<and> c \<le> 0x20) \<or> c = 0x85 \<or> c = 0xA0 \<or>
     c = 0x1680 \<or> (0x2000 \<le> c \<and> c \<le> 0x200A) \<or> c = 0x2028 \<or> c = 0x2029 \<or>
     c = 0x202F \<or> c = 0x205F \<or> c = 0x3000"

text \<open>The regex class \<^verbatim>\<open>\d\<close> on a \<^verbatim>\<open>str\<close> pattern is \<^verbatim>\<open>isdecimal\<close>.\<close>

definition is_digit :: "env \<Rightarrow> nat \<Rightarrow> bool" where
  "is_digit E c = (if c < 128 then 0x30 \<le> c \<and> c \<le> 0x39 else ucd_isdecimal E c)"

definition is_alnum :: "env \<Rightarrow> nat \<Rightarrow> bool" where
  "is_alnum E c =
     (if c < 128 then (0x30 \<le> c \<and> c \<le> 0x39) \<or> (0x41 \<le> c \<and> c \<le> 0x5A) \<or> (0x61 \<le> c \<and> c \<le> 0x7A)
      else ucd_isalpha E c \<or> ucd_isdecimal E c \<or> ucd_isdigit E c \<or> ucd_isnumeric E c)"

text \<open>The regex class \<^verbatim>\<open>\w\<close>: alphanumeric or underscore.\<close>

definition is_word :: "env \<Rightarrow> nat \<Rightarrow> bool" where
  "is_word E c \<longleftrightarrow> is_alnum E c \<or> c = 0x5F"

definition lower_at :: "env \<Rightarrow> pystr \<Rightarrow> nat \<Rightarrow> pystr" where
  "lower_at E s i =
     (let c = s ! i in
      if c < 128 then [if 0x41 \<le> c \<and> c \<le> 0x5A then c + 32 else c] else ucd_lower E s i)"

definition py_lower :: "env \<Rightarrow> pystr \<Rightarrow> pystr" where
  "py_lower E s = concat (map (lower_at E s) [0..<length s])"

definition py_strip :: "pystr \<Rightarrow> pystr" where
  "py_strip s = rev (dropWhile is_space (rev (dropWhile is_space s)))"

text \<open>\<^verbatim>\<open>text.split()\<close>: the maximal runs of non-whitespace; \<open>cur\<close> is the run being read,
  reversed.\<close>

fun split_from :: "pystr \<Rightarrow> pystr \<Rightarrow> pystr list" where
  "split_from cur [] = (if cur = [] then [] else [rev cur])"
| "split_from cur (x # xs) =
     (if is_space x then (if cur = [] then split_from [] xs else rev cur # split_from [] xs)
      else split_from (x # cur) xs)"

definition py_split :: "pystr \<Rightarrow> pystr list" where
  "py_split s = split_from [] s"

fun py_join :: "pystr \<Rightarrow> pystr list \<Rightarrow> pystr" where
  "py_join sep [] = []"
| "py_join sep [w] = w"
| "py_join sep (w # v # ws) = w @ sep @ py_join sep (v # ws)"

fun starts_with :: "pystr \<Rightarrow> pystr \<Rightarrow> bool" where
  "starts_with [] s = True"
| "starts_with (c # cs) [] = False"
| "starts_with (c # cs) (x # xs) = (c = x \<and> starts_with cs xs)"

text \<open>\<^verbatim>\<open>sub in s\<close>.\<close>

fun py_contains :: "pystr \<Rightarrow> pystr \<Rightarrow> bool" where
  "py_contains sub [] = (sub = [])"
| "py_contains sub (x # xs) = (starts_with sub (x # xs) \<or> py_contains sub xs)"

text \<open>\<^verbatim>\<open>s.replace(old, new)\<close> for a non-empty \<open>old\<close>, which is all the cleaner uses: the
  occurrences are replaced from the left, without overlap.\<close>

function py_replace :: "pystr \<Rightarrow> pystr \<Rightarrow> pystr \<Rightarrow> pystr" where
  "py_replace old new [] = []"
| "py_replace old new (x # xs) =
     (if old \<noteq> [] \<and> starts_with old (x # xs)
      then new @ py_replace old new (drop (length old) (x # xs))
      else x # py_replace old new xs)"
  by pat_completeness auto
termination
  by (relation "measure (\<lambda>(old, new, s). length s)") auto

section \<open>Regular expressions\<close>

text \<open>
  The patterns of the cleaner are sequences of character classes, each taken once or
  under a greedy star. \<open>rmatch r s\<close> is \<^verbatim>\<open>re\<close>'s backtracking match of \<open>r\<close> at the start of
  \<open>s\<close>: a star first takes as many characters as it can and gives them back one by one
  while the rest of the pattern fails. The result is the text after the match.
\<close>

datatype item = One "nat \<Rightarrow> bool" | Many "nat \<Rightarrow> bool"

fun rmatch :: "item list \<Rightarrow> pystr \<Rightarrow> pystr option" where
  "rmatch [] s = Some s"
| "rmatch (One p # r) [] = None"
| "rmatch (One p # r) (x # xs) = (if p x then rmatch r xs else None)"
| "rmatch (Many p # r) [] = rmatch r []"
| "rmatch (Many p # r) (x # xs) =
     (if p x
      then (case rmatch (Many p # r) xs of Some t \<Rightarrow> Some t | None \<Rightarrow> rmatch r (x # xs))
      else rmatch r (x # xs))"

text \<open>
  \<^verbatim>\<open>re.sub(r, repl, s)\<close> scans from the left: where the pattern matches, the match is
  replaced and the scan goes on after it; elsewhere one character is copied. No pattern
  of the cleaner matches the empty string (\<open>rmatch_nonempty\<close> below), so an empty match
  is not a case here.
\<close>

fun re_sub :: "item list \<Rightarrow> pystr \<Rightarrow> pystr \<Rightarrow> pystr" where
  "re_sub r repl [] = []"
| "re_sub r repl (x # xs) =
     (case rmatch r (x # xs) of
        None \<Rightarrow> x # re_sub r repl xs
      | Some t \<Rightarrow>
          if length t < length (x # xs) then repl @ re_sub r repl t
          else x # re_sub r repl xs)"

text \<open>\<^verbatim>\<open>re.split(r, s)\<close>: the pieces between the matches, the empty pieces at the ends and
  between adjacent matches included; \<open>cur\<close> is the piece being read, reversed.\<close>

fun re_split_from :: "item list \<Rightarrow> pystr \<Rightarrow> pystr \<Rightarrow> pystr list" where
  "re_split_from r cur [] = [rev cur]"
| "re_split_from r cur (x # xs) =
     (case rmatch r (x # xs) of
        None \<Rightarrow> re_split_from r (x # cur) xs
      | Some t \<Rightarrow>
          if length t < length (x # xs) then rev cur # re_split_from r [] t
          else re_split_from r (x # cur) xs)"

definition re_split :: "item list \<Rightarrow> pystr \<Rightarrow> pystr list" where
  "re_split r s = re_split_from r [] s"

section \<open>The cleaner\<close>

text \<open>\<^verbatim>\<open>string.punctuation\<close>.\<close>

definition string_punctuation :: pystr where
  "string_punctuation =
     [0x21, 0x22, 0x23, 0x24, 0x25, 0x26, 0x27, 0x28, 0x29, 0x2A, 0x2B, 0x2C, 0x2D, 0x2E, 0x2F,
      0x3A, 0x3B, 0x3C, 0x3D, 0x3E, 0x3F, 0x40, 0x5B, 0x5C, 0x5D, 0x5E, 0x5F, 0x60,
      0x7B, 0x7C, 0x7D, 0x7E]"

text \<open>The source builds a set; only membership is ever asked of it.\<close>

definition get_all_punctuations :: "env \<Rightarrow> pystr set" where
  "get_all_punctuations E =
     set (nltk_stopwords_english E) \<union> set (map (\<lambda>c. [c]) string_punctuation)"

definition strip_html :: "env \<Rightarrow> pystr \<Rightarrow> pystr" where
  "strip_html E text = bs4_get_text E text"

text \<open>\<^verbatim>\<open>http\S+\<close>\<close>

definition url_pattern :: "item list" where
  "url_pattern =
     [One (\<lambda>c. c = 0x68), One (\<lambda>c. c = 0x74), One (\<lambda>c. c = 0x74), One (\<lambda>c. c = 0x70),
      One (\<lambda>c. \<not> is_space c), Many (\<lambda>c. \<not> is_space c)]"

definition remove_urls :: "pystr \<Rightarrow> pystr" where
  "remove_urls text = re_sub url_pattern [] text"

text \<open>\<^verbatim>\<open>\[[^]]*\]\<close>\<close>

definition bracket_pattern :: "item list" where
  "bracket_pattern = [One (\<lambda>c. c = 0x5B), Many (\<lambda>c. c \<noteq> 0x5D), One (\<lambda>c. c = 0x5D)]"

definition remove_between_square_brackets :: "pystr \<Rightarrow> pystr" where
  "remove_between_square_brackets text = re_sub bracket_pattern [] text"

text \<open>\<^verbatim>\<open>\w*\d\w*\<close>\<close>

definition number_pattern :: "env \<Rightarrow> item list" where
  "number_pattern E = [Many (is_word E), One (is_digit E), Many (is_word E)]"

definition remove_numbers :: "env \<Rightarrow> pystr \<Rightarrow> pystr" where
  "remove_numbers E text = re_sub (number_pattern E) [] text"

text \<open>The list \<^verbatim>\<open>_punctuations\<close> of \<^verbatim>\<open>remove_stopwords\<close>, in the source's order:
  \<^verbatim>\<open>\ ` * _ { } [ ] ( ) /\<close>, the four curly quotes, \<^verbatim>\<open>> @ # + - -- ? % #\<close>, the pound
  sign, \<^verbatim>\<open>. : ; , ! $ '\<close>.\<close>

definition punctuations :: "pystr list" where
  "punctuations =
     [[0x5C], [0x60], [0x2A], [0x5F], [0x7B], [0x7D], [0x5B], [0x5D], [0x28], [0x29], [0x2F],
      [0x201C], [0x201D], [0x2019], [0x2018], [0x3E], [0x40], [0x23], [0x2B],
      [0x2D], [0x2D, 0x2D], [0x3F], [0x25], [0x23], [0xA3], [0x2E], [0x3A], [0x3B], [0x2C],
      [0x21], [0x24], [0x27]]"

text \<open>The inner loop of \<^verbatim>\<open>remove_stopwords\<close> over \<^verbatim>\<open>_punctuations\<close>.\<close>

definition replace_punctuations :: "pystr \<Rightarrow> pystr" where
  "replace_punctuations i =
     fold (\<lambda>ch i. if py_contains ch i then py_replace ch [0x20] i else i) punctuations i"

definition remove_stopwords :: "env \<Rightarrow> pystr \<Rightarrow> pystr" where
  "remove_stopwords E text =
     (let stops = get_all_punctuations E;
          final_text = map (\<lambda>i. py_strip (replace_punctuations i))
                         (filter (\<lambda>i. py_lower E (py_strip i) \<notin> stops) (py_split text))
      in py_join [0x20] final_text)"

text \<open>The class of the two single and two double curly quotes and the ellipsis.\<close>

definition accent_pattern :: "item list" where
  "accent_pattern =
     [One (\<lambda>c. c = 0x2018 \<or> c = 0x2019 \<or> c = 0x201C \<or> c = 0x201D \<or> c = 0x2026)]"

definition remove_accent_signs :: "pystr \<Rightarrow> pystr" where
  "remove_accent_signs text = re_sub accent_pattern [] text"

definition newline_pattern :: "item list" where
  "newline_pattern = [One (\<lambda>c. c = 0x0A)]"

definition remove_new_lines :: "pystr \<Rightarrow> pystr" where
  "remove_new_lines text = re_sub newline_pattern [] text"

text \<open>\<^verbatim>\<open>\W+\<close>\<close>

definition nonword_pattern :: "env \<Rightarrow> item list" where
  "nonword_pattern E = [One (\<lambda>c. \<not> is_word E c), Many (\<lambda>c. \<not> is_word E c)]"

definition tokenize :: "env \<Rightarrow> pystr \<Rightarrow> pystr list" where
  "tokenize E text = re_split (nonword_pattern E) text"

definition lemmatizer :: "env \<Rightarrow> pystr list \<Rightarrow> pystr list" where
  "lemmatizer E text =
     map (wordnet_lemmatize E) (filter (\<lambda>word. word \<notin> set (nltk_stopwords_english E)) text)"

definition clean_text :: "env \<Rightarrow> pystr \<Rightarrow> pystr" where
  "clean_text E text =
     (let text = strip_html E text;
          text = py_lower E text;
          text = remove_between_square_brackets text;
          text = remove_urls text;
          text = remove_stopwords E text;
          text = remove_numbers E text;
          text = remove_accent_signs text;
          text = remove_new_lines text;
          tokens = tokenize E text;
          tokens = lemmatizer E tokens
      in py_join [0x20] tokens)"

section \<open>A concrete set of resources\<close>

text \<open>
  The stopword list that NLTK ships for English (179 words), and an environment built on
  it for evaluating the cleaner on concrete texts. Its other components are the libraries
  restricted to the texts used below: BeautifulSoup returns a text without markup (no
  \<^verbatim>\<open><\<close>, no \<^verbatim>\<open>&\<close>) as it is; the WordNet lemmatizer returns a word for which WordNet has no
  other form as it is, the empty string included; and none of the non-ASCII characters
  used is a letter, a digit or cased.
\<close>

definition nltk_english :: "pystr list" where
  "nltk_english = map cps
       [''i'', ''me'', ''my'', ''myself'', ''we'', ''our'', ''ours'', ''ourselves'', ''you'',
        ''you're'', ''you've'', ''you'll'', ''you'd'', ''your'', ''yours'', ''yourself'',
        ''yourselves'', ''he'', ''him'', ''his'', ''himself'', ''she'', ''she's'', ''her'',
        ''hers'', ''herself'', ''it'', ''it's'', ''its'', ''itself'', ''they'', ''them'',
        ''their'', ''theirs'', ''themselves'', ''what'', ''which'', ''who'', ''whom'',
        ''this'', ''that'', ''that'll'', ''these'', ''those'', ''am'', ''is'', ''are'',
        ''was'', ''were'', ''be'', ''been'', ''being'', ''have'', ''has'', ''had'', ''having'',
        ''do'', ''does'', ''did'', ''doing'', ''a'', ''an'', ''the'', ''and'', ''but'', ''if'',
        ''or'', ''because'', ''as'', ''until'', ''while'', ''of'', ''at'', ''by'', ''for'',
        ''with'', ''about'', ''against'', ''between'', ''into'', ''through'', ''during'',
        ''before'', ''after'', ''above'', ''below'', ''to'', ''from'', ''up'', ''down'',
        ''in'', ''out'', ''on'', ''off'', ''over'', ''under'', ''again'', ''further'',
        ''then'', ''once'', ''here'', ''there'', ''when'', ''where'', ''why'', ''how'',
        ''all'', ''any'', ''both'', ''each'', ''few'', ''more'', ''most'', ''other'', ''some'',
        ''such'', ''no'', ''nor'', ''not'', ''only'', ''own'', ''same'', ''so'', ''than'',
        ''too'', ''very'', ''s'', ''t'', ''can'', ''will'', ''just'', ''don'', ''don't'',
        ''should'', ''should've'', ''now'', ''d'', ''ll'', ''m'', ''o'', ''re'', ''ve'', ''y'',
        ''ain'', ''aren'', ''aren't'', ''couldn'', ''couldn't'', ''didn'', ''didn't'',
        ''doesn'', ''doesn't'', ''hadn'', ''hadn't'', ''hasn'', ''hasn't'', ''haven'',
        ''haven't'', ''isn'', ''isn't'', ''ma'', ''mightn'', ''mightn't'', ''mustn'',
        ''mustn't'', ''needn'', ''needn't'', ''shan'', ''shan't'', ''shouldn'', ''shouldn't'',
        ''wasn'', ''wasn't'', ''weren'', ''weren't'', ''won'', ''won't'', ''wouldn'',
        ''wouldn't'']"

definition plain_env :: env where
  "plain_env =
     \<lparr>bs4_get_text = (\<lambda>text. text),
      nltk_stopwords_english = nltk_english,
      wordnet_lemmatize = (\<lambda>word. word),
      ucd_isalpha = (\<lambda>c. False),
      ucd_isdecimal = (\<lambda>c. False),
      ucd_isdigit = (\<lambda>c. False),
      ucd_isnumeric = (\<lambda>c. False),
      ucd_lower = (\<lambda>s i. [s ! i])\<rparr>"

section \<open>The pipeline\<close>

subsection \<open>Data\<close>

text \<open>
  What \<^verbatim>\<open>pd.read_csv\<close> returns: the column names of the file and its rows, one cell for each
  column. A cell of the columns the pipeline reads is a string or, where the file has
  nothing (pandas reads that as the float \<^verbatim>\<open>nan\<close>), no string. The files the notebook is
  written for have the columns \<^verbatim>\<open>title\<close>, \<^verbatim>\<open>text\<close>, \<^verbatim>\<open>subject\<close>, \<^verbatim>\<open>date\<close>, but the code takes
  any file.
\<close>

datatype cell = Str pystr | NaN

record table =
  columns :: "string list"
  cells :: "cell list list"

text \<open>The cells of the column \<open>c\<close>, row by row; \<^verbatim>\<open>nan\<close> where the table has no such column
  (as \<^verbatim>\<open>pd.concat\<close> fills the rows of a frame that lacks a column of the other) or a row is
  short.\<close>

definition column :: "string \<Rightarrow> table \<Rightarrow> cell list" where
  "column c t =
     (let i = length (takeWhile (\<lambda>x. x \<noteq> c) (columns t))
      in map (\<lambda>row. if i < length row then row ! i else NaN) (cells t))"

text \<open>
  A row of the assembled frame: its text and its label. A pandas frame or series is the
  list of its rows, each with its index label; of the columns of the assembled frame the
  names are kept.
\<close>

record doc =
  doc_text :: cell
  category :: int

type_synonym 'a series = "(nat \<times> 'a) list"

record dataframe =
  df_columns :: "string list"
  df_rows :: "doc series"

text \<open>The selectors are enumeration members; a caller can pass any other object.\<close>

datatype pyobj = PyNone | PyInt int | PyStr string

datatype 'e arg = Member 'e | Other pyobj

datatype VectorizerType = Tfidf | Count

datatype ModelType = nb | lr | pa | dt

text \<open>The scikit-learn objects the code constructs, with the parameters it gives them:
  both vectorizers with \<^verbatim>\<open>min_df=0, max_df=1, ngram_range=(1, 3)\<close>, the passive-aggressive
  classifier with \<^verbatim>\<open>C=0.5, random_state=5\<close>.\<close>

datatype vectorizer = TfidfVectorizer | CountVectorizer

datatype estimator =
  MultinomialNB | LogisticRegression | PassiveAggressiveClassifier | DecisionTreeClassifier

text \<open>The exceptions: \<open>RuntimeError\<close> is the one the source raises itself; the others are
  raised by Python, pandas, BeautifulSoup or scikit-learn on what the source asks of
  them.\<close>

datatype error =
  RuntimeError string | AttributeError string | KeyError string | TypeError string
  | ValueError string | LibraryError string

text \<open>
  What the pipeline calls in pandas, NumPy and scikit-learn; \<open>'x\<close> is a feature matrix,
  \<open>'f\<close> what an estimator has learned, \<open>'r\<close> a float.
  \<^item> \<open>df_sample g rows\<close> is the rows of \<^verbatim>\<open>d.sample(frac=1)\<close> when NumPy's global generator is
    in state \<open>g\<close>, with the generator's next state.
  \<^item> \<open>train_test_split ys\<close> is the positions chosen for the train and the test part by
    \<^verbatim>\<open>train_test_split(..., train_size=.8, stratify=ys, random_state=19)\<close>, which depend on
    the number of rows and on \<open>ys\<close> only.
  \<^item> \<open>transform v fitted_on texts\<close> is \<^verbatim>\<open>transform(texts)\<close> of the vectorizer \<open>v\<close> fitted on
    \<open>fitted_on\<close>.
  \<^item> \<open>estimator_fit est x ys g\<close> is \<^verbatim>\<open>est.fit(x, ys)\<close> when the global generator is in state
    \<open>g\<close> (the decision tree is built without a seed), with the generator's next state.
\<close>

record ('x, 'f, 'r) libs =
  read_csv :: "string \<Rightarrow> error + table"
  df_sample :: "nat \<Rightarrow> doc series \<Rightarrow> doc series \<times> nat"
  train_test_split :: "int list \<Rightarrow> error + nat list \<times> nat list"
  fit_transform :: "vectorizer \<Rightarrow> cell list \<Rightarrow> error + 'x"
  transform :: "vectorizer \<Rightarrow> cell list \<Rightarrow> cell list \<Rightarrow> error + 'x"
  shape :: "'x \<Rightarrow> nat \<times> nat"
  estimator_fit :: "estimator \<Rightarrow> 'x \<Rightarrow> int list \<Rightarrow> nat \<Rightarrow> (error + 'f) \<times> nat"
  estimator_predict :: "'f \<Rightarrow> 'x \<Rightarrow> error + int list"
  sk_accuracy_score :: "int list \<Rightarrow> int list \<Rightarrow> error + 'r"
  sk_classification_report :: "int list \<Rightarrow> int list \<Rightarrow> error + string"

record TrainTestSplit =
  split_df :: dataframe
  text_train :: "cell series"
  text_test :: "cell series"
  category_train :: "int series"
  category_test :: "int series"

record 'x Vectorize =
  vec_split :: TrainTestSplit
  vec_vectorizer :: vectorizer
  train :: 'x
  test :: 'x

text \<open>The lines a run prints: the two shape lines of \<^verbatim>\<open>Vectorize\<close>, the accuracy line (the
  score is rounded for printing) and the report.\<close>

datatype 'r line =
  ShapeLine string string "nat \<times> nat" | ScoreLine string string 'r | ReportText string

text \<open>
  A \<^verbatim>\<open>Model\<close> object (the fields of \<^verbatim>\<open>TextProcessor\<close> and its own; \<open>priv_df\<close> is \<^verbatim>\<open>_df\<close>, and
  so on; \<open>fitted\<close> is what \<^verbatim>\<open>self.model\<close> holds after \<^verbatim>\<open>fit\<close>), with the two pieces of process
  state its methods touch: the state of NumPy's global random generator, which nothing
  in the repository seeds, and the standard output. A method returns its result or the
  exception it raises, and the state it leaves.
\<close>

record ('x, 'f, 'r) Model =
  priv_df :: "dataframe option"
  true_news :: table
  fake_news :: table
  vectorizer_type :: "VectorizerType arg"
  sample_size :: int
  priv_split :: "TrainTestSplit option"
  priv_vectorize :: "'x Vectorize option"
  model_type :: "ModelType arg"
  model :: "estimator option"
  fitted :: "'f option"
  priv_score :: "'r option"
  rng :: nat
  stdout :: "'r line list"

subsection \<open>Train test split\<close>

text \<open>Taking the rows at the chosen positions; a position outside the series is an
  error.\<close>

definition take_rows :: "'a series \<Rightarrow> nat list \<Rightarrow> error + 'a series" where
  "take_rows xs ps =
     (if \<forall>p\<in>set ps. p < length xs then Inr (map (\<lambda>p. xs ! p) ps)
      else Inl (LibraryError ''IndexError''))"

text \<open>\<^verbatim>\<open>self.df.text\<close> is an attribute lookup, which finds the column of that name if the
  frame has one; the column \<^verbatim>\<open>category\<close> is always there.\<close>

definition TrainTestSplit_init ::
  "('x, 'f, 'r) libs \<Rightarrow> dataframe \<Rightarrow> error + TrainTestSplit" where
  "TrainTestSplit_init K d =
     (if ''text'' \<notin> set (df_columns d) then Inl (AttributeError ''text'')
      else
        let text = map (\<lambda>(i, r). (i, doc_text r)) (df_rows d);
            category = map (\<lambda>(i, r). (i, doc.category r)) (df_rows d)
        in case train_test_split K (map snd category) of
             Inl e \<Rightarrow> Inl e
           | Inr (tr, te) \<Rightarrow>
               (case (take_rows text tr, take_rows text te,
                      take_rows category tr, take_rows category te) of
                  (Inr a, Inr b, Inr c, Inr d') \<Rightarrow>
                    Inr \<lparr>split_df = d, text_train = a, text_test = b,
                         category_train = c, category_test = d'\<rparr>
                | _ \<Rightarrow> Inl (LibraryError ''IndexError'')))"

subsection \<open>Vectorization\<close>

text \<open>The constructor prints two lines; it takes the standard output and returns it
  with them.\<close>

definition Vectorize_init ::
  "('x, 'f, 'r) libs \<Rightarrow> TrainTestSplit \<Rightarrow> VectorizerType arg \<Rightarrow> 'r line list \<Rightarrow>
     (error + 'x Vectorize) \<times> 'r line list" where
  "Vectorize_init K sp vt out =
     (case (if vt = Member Tfidf then Inr TfidfVectorizer
            else if vt = Member Count then Inr CountVectorizer
            else Inl (RuntimeError ''Unable to determine the vectorizer type.'')) of
        Inl e \<Rightarrow> (Inl e, out)
      | Inr v \<Rightarrow>
          (case fit_transform K v (map snd (text_train sp)) of
             Inl e \<Rightarrow> (Inl e, out)
           | Inr tr \<Rightarrow>
               (case transform K v (map snd (text_train sp)) (map snd (text_test sp)) of
                  Inl e \<Rightarrow> (Inl e, out)
                | Inr te \<Rightarrow>
                    (let msg = (if vt = Member Tfidf then ''TF-IDF'' else ''Count'')
                     in (Inr \<lparr>vec_split = sp, vec_vectorizer = v, train = tr, test = te\<rparr>,
                         out @ [ShapeLine msg ''Train'' (shape K tr),
                                ShapeLine msg ''Test'' (shape K te)])))))"

subsection \<open>Text processor\<close>

text \<open>\<^verbatim>\<open>head(n)\<close>: the first \<open>n\<close> rows, or all but the last \<open>-n\<close> for a negative \<open>n\<close>.\<close>

definition head :: "int \<Rightarrow> 'a list \<Rightarrow> 'a list" where
  "head n xs = (if 0 \<le> n then take (nat n) xs else take (length xs - nat (- n)) xs)"

text \<open>
  The lines of \<^verbatim>\<open>create_data_frame\<close> before the shuffle. The genuine rows are labelled 1 and
  the fabricated rows 0 (the column is added to \<^verbatim>\<open>self.true_news\<close> and \<^verbatim>\<open>self.fake_news\<close>, where
  nothing else reads it); the concatenation has the columns of both frames; \<^verbatim>\<open>drop\<close> raises
  \<^verbatim>\<open>KeyError\<close> unless \<^verbatim>\<open>title\<close>, \<^verbatim>\<open>subject\<close> and \<^verbatim>\<open>date\<close> are all among them; \<^verbatim>\<open>reset_index\<close>
  numbers the rows from 0 and puts the old index into a new column \<^verbatim>\<open>index\<close>, or \<^verbatim>\<open>level_0\<close>
  if there is a column \<^verbatim>\<open>index\<close> already, and raises \<^verbatim>\<open>ValueError\<close> if there is that one
  too; the last \<^verbatim>\<open>drop\<close> removes the column \<^verbatim>\<open>index\<close>.
\<close>

definition with_category :: "string list \<Rightarrow> string list" where
  "with_category cs = (if ''category'' \<in> set cs then cs else cs @ [''category''])"

definition assemble :: "table \<Rightarrow> table \<Rightarrow> error + dataframe" where
  "assemble t f =
     (let ct = with_category (columns t);
          cf = with_category (columns f);
          cols = ct @ filter (\<lambda>c. c \<notin> set ct) cf
      in if \<not> set [''title'', ''subject'', ''date''] \<subseteq> set cols
         then Inl (KeyError ''not found in axis'')
         else
           let kept = filter (\<lambda>c. c \<notin> set [''title'', ''subject'', ''date'']) cols;
               name = (if ''index'' \<in> set kept then ''level_0'' else ''index'')
           in if name \<in> set kept then Inl (ValueError ''cannot insert level_0, already exists'')
              else
                let rows = map (\<lambda>c. \<lparr>doc_text = c, category = 1\<rparr>) (column ''text'' t) @
                           map (\<lambda>c. \<lparr>doc_text = c, category = 0\<rparr>) (column ''text'' f)
                in Inr \<lparr>df_columns = filter (\<lambda>c. c \<noteq> ''index'') (name # kept),
                        df_rows = zip [0..<length rows] rows\<rparr>)"

text \<open>\<^verbatim>\<open>create_data_frame\<close>: the assembled frame, shuffled and truncated.\<close>

definition create_data_frame ::
  "('x, 'f, 'r) libs \<Rightarrow> ('x, 'f, 'r) Model \<Rightarrow> (error + dataframe) \<times> ('x, 'f, 'r) Model" where
  "create_data_frame K s =
     (case assemble (true_news s) (fake_news s) of
        Inl e \<Rightarrow> (Inl e, s)
      | Inr d \<Rightarrow>
          (let (shuffled, g) = df_sample K (rng s) (df_rows d)
           in (Inr (d\<lparr>df_rows := head (sample_size s) shuffled\<rparr>), s\<lparr>rng := g\<rparr>)))"

text \<open>The property \<^verbatim>\<open>df\<close>.\<close>

definition df ::
  "('x, 'f, 'r) libs \<Rightarrow> ('x, 'f, 'r) Model \<Rightarrow> (error + dataframe) \<times> ('x, 'f, 'r) Model" where
  "df K s =
     (case priv_df s of
        None \<Rightarrow>
          (case create_data_frame K s of
             (Inl e, s1) \<Rightarrow> (Inl e, s1)
           | (Inr d, s1) \<Rightarrow> (Inr d, s1\<lparr>priv_df := Some d\<rparr>))
      | Some d \<Rightarrow> (Inr d, s))"

text \<open>\<^verbatim>\<open>clean_text\<close> on a cell: BeautifulSoup, the first thing it calls, raises \<^verbatim>\<open>TypeError\<close>
  on what is no string.\<close>

fun clean_cell :: "env \<Rightarrow> cell \<Rightarrow> error + cell" where
  "clean_cell E (Str t) = Inr (Str (clean_text E t))"
| "clean_cell E NaN = Inl (TypeError ''object of type float has no len()'')"

text \<open>\<^verbatim>\<open>Series.apply(f)\<close>: \<open>f\<close> on each value in turn; the first exception ends it.\<close>

fun series_apply :: "('a \<Rightarrow> error + 'b) \<Rightarrow> 'a series \<Rightarrow> error + 'b series" where
  "series_apply f [] = Inr []"
| "series_apply f ((i, x) # xs) =
     (case f x of
        Inl e \<Rightarrow> Inl e
      | Inr y \<Rightarrow> (case series_apply f xs of Inl e \<Rightarrow> Inl e | Inr ys \<Rightarrow> Inr ((i, y) # ys)))"

text \<open>
  \<^verbatim>\<open>self.df['text'] = self.df['text'].apply(clean_text)\<close>: the right-hand side reads the
  property first, and raises \<^verbatim>\<open>KeyError\<close> if the frame has no column \<^verbatim>\<open>text\<close>; the assignment
  reads the property again; the new column has the frame's own index, so it is assigned
  row by row.
\<close>

definition cleanup_text ::
  "env \<Rightarrow> ('x, 'f, 'r) libs \<Rightarrow> ('x, 'f, 'r) Model \<Rightarrow> (error + unit) \<times> ('x, 'f, 'r) Model" where
  "cleanup_text E K s =
     (case df K s of
        (Inl e, s1) \<Rightarrow> (Inl e, s1)
      | (Inr d1, s1) \<Rightarrow>
          if ''text'' \<notin> set (df_columns d1) then (Inl (KeyError ''text''), s1)
          else
            (case series_apply (clean_cell E) (map (\<lambda>(i, r). (i, doc_text r)) (df_rows d1)) of
               Inl e \<Rightarrow> (Inl e, s1)
             | Inr cleaned \<Rightarrow>
                 (case df K s1 of
                    (Inl e, s2) \<Rightarrow> (Inl e, s2)
                  | (Inr d2, s2) \<Rightarrow>
                      (Inr (),
                       s2\<lparr>priv_df := Some (d2\<lparr>df_rows :=
                            map2 (\<lambda>(i, r) (j, t). (i, r\<lparr>doc_text := t\<rparr>)) (df_rows d2) cleaned\<rparr>)\<rparr>))))"

definition pre_processor ::
  "env \<Rightarrow> ('x, 'f, 'r) libs \<Rightarrow> ('x, 'f, 'r) Model \<Rightarrow> (error + unit) \<times> ('x, 'f, 'r) Model" where
  "pre_processor E K s =
     (case create_data_frame K s of
        (Inl e, s1) \<Rightarrow> (Inl e, s1)
      | (Inr d, s1) \<Rightarrow> cleanup_text E K s1)"

text \<open>The property \<^verbatim>\<open>split\<close>.\<close>

definition split ::
  "('x, 'f, 'r) libs \<Rightarrow> ('x, 'f, 'r) Model \<Rightarrow> (error + TrainTestSplit) \<times> ('x, 'f, 'r) Model" where
  "split K s =
     (case priv_split s of
        Some sp \<Rightarrow> (Inr sp, s)
      | None \<Rightarrow>
          (case df K s of
             (Inl e, s1) \<Rightarrow> (Inl e, s1)
           | (Inr d, s1) \<Rightarrow>
               (case TrainTestSplit_init K d of
                  Inl e \<Rightarrow> (Inl e, s1)
                | Inr sp \<Rightarrow> (Inr sp, s1\<lparr>priv_split := Some sp\<rparr>))))"

text \<open>The property \<^verbatim>\<open>vectorize\<close>; the argument \<^verbatim>\<open>self.split\<close> is evaluated before the
  constructor runs.\<close>

definition vectorize ::
  "('x, 'f, 'r) libs \<Rightarrow> ('x, 'f, 'r) Model \<Rightarrow> (error + 'x Vectorize) \<times> ('x, 'f, 'r) Model" where
  "vectorize K s =
     (case priv_vectorize s of
        Some v \<Rightarrow> (Inr v, s)
      | None \<Rightarrow>
          (case split K s of
             (Inl e, s1) \<Rightarrow> (Inl e, s1)
           | (Inr sp, s1) \<Rightarrow>
               (case Vectorize_init K sp (vectorizer_type s1) (stdout s1) of
                  (Inl e, out) \<Rightarrow> (Inl e, s1\<lparr>stdout := out\<rparr>)
                | (Inr v, out) \<Rightarrow> (Inr v, s1\<lparr>stdout := out, priv_vectorize := Some v\<rparr>))))"

subsection \<open>Model\<close>

text \<open>The chain of \<^verbatim>\<open>if\<close> and \<^verbatim>\<open>elif\<close> has no \<^verbatim>\<open>else\<close>: for any other argument the function
  returns \<^verbatim>\<open>None\<close>.\<close>

definition create_model :: "ModelType arg \<Rightarrow> estimator option" where
  "create_model mt =
     (if mt = Member nb then Some MultinomialNB
      else if mt = Member lr then Some LogisticRegression
      else if mt = Member pa then Some PassiveAggressiveClassifier
      else if mt = Member dt then Some DecisionTreeClassifier
      else None)"

text \<open>The constructor: \<^verbatim>\<open>TextProcessor.__init__\<close> reads the two files, then the model is
  created. \<open>g\<close> is the state of the random generator at that moment.\<close>

definition Model_init ::
  "('x, 'f, 'r) libs \<Rightarrow> string \<Rightarrow> string \<Rightarrow> VectorizerType arg \<Rightarrow> ModelType arg \<Rightarrow> int \<Rightarrow> nat \<Rightarrow>
     error + ('x, 'f, 'r) Model" where
  "Model_init K true_path fake_path vt mt n g =
     (case read_csv K true_path of
        Inl e \<Rightarrow> Inl e
      | Inr t \<Rightarrow>
          (case read_csv K fake_path of
             Inl e \<Rightarrow> Inl e
           | Inr f \<Rightarrow>
               Inr \<lparr>priv_df = None, true_news = t, fake_news = f, vectorizer_type = vt,
                    sample_size = n, priv_split = None, priv_vectorize = None,
                    model_type = mt, model = create_model mt, fitted = None,
                    priv_score = None, rng = g, stdout = []\<rparr>))"

text \<open>\<^verbatim>\<open>self.model.fit(self.vectorize.train, self.split.category_train)\<close>: the attribute
  \<^verbatim>\<open>fit\<close> of \<^verbatim>\<open>self.model\<close> is looked up before the arguments are evaluated.\<close>

definition fit ::
  "('x, 'f, 'r) libs \<Rightarrow> ('x, 'f, 'r) Model \<Rightarrow> (error + unit) \<times> ('x, 'f, 'r) Model" where
  "fit K s =
     (case model s of
        None \<Rightarrow> (Inl (AttributeError ''fit''), s)
      | Some est \<Rightarrow>
          (case vectorize K s of
             (Inl e, s1) \<Rightarrow> (Inl e, s1)
           | (Inr v, s1) \<Rightarrow>
               (case split K s1 of
                  (Inl e, s2) \<Rightarrow> (Inl e, s2)
                | (Inr sp, s2) \<Rightarrow>
                    (case estimator_fit K est (train v) (map snd (category_train sp)) (rng s2) of
                       (Inl e, g) \<Rightarrow> (Inl e, s2\<lparr>rng := g\<rparr>)
                     | (Inr f, g) \<Rightarrow> (Inr (), s2\<lparr>rng := g, fitted := Some f\<rparr>)))))"

definition predict ::
  "('x, 'f, 'r) libs \<Rightarrow> ('x, 'f, 'r) Model \<Rightarrow> (error + int list) \<times> ('x, 'f, 'r) Model" where
  "predict K s =
     (case model s of
        None \<Rightarrow> (Inl (AttributeError ''predict''), s)
      | Some est \<Rightarrow>
          (case vectorize K s of
             (Inl e, s1) \<Rightarrow> (Inl e, s1)
           | (Inr v, s1) \<Rightarrow>
               (case fitted s1 of
                  None \<Rightarrow> (Inl (LibraryError ''NotFittedError''), s1)
                | Some f \<Rightarrow>
                    (case estimator_predict K f (test v) of
                       Inl e \<Rightarrow> (Inl e, s1)
                     | Inr ys \<Rightarrow> (Inr ys, s1)))))"

text \<open>The property \<^verbatim>\<open>accuracy_score\<close>.\<close>

definition accuracy_score ::
  "('x, 'f, 'r) libs \<Rightarrow> ('x, 'f, 'r) Model \<Rightarrow> (error + 'r) \<times> ('x, 'f, 'r) Model" where
  "accuracy_score K s =
     (case priv_score s of
        Some a \<Rightarrow> (Inr a, s)
      | None \<Rightarrow>
          (case split K s of
             (Inl e, s1) \<Rightarrow> (Inl e, s1)
           | (Inr sp, s1) \<Rightarrow>
               (case predict K s1 of
                  (Inl e, s2) \<Rightarrow> (Inl e, s2)
                | (Inr ys, s2) \<Rightarrow>
                    (case sk_accuracy_score K (map snd (category_test sp)) ys of
                       Inl e \<Rightarrow> (Inl e, s2)
                     | Inr a \<Rightarrow> (Inr a, s2\<lparr>priv_score := Some a\<rparr>)))))"

definition ModelType_value :: "ModelType \<Rightarrow> string" where
  "ModelType_value m =
     (case m of nb \<Rightarrow> ''MultinomialNBModel'' | lr \<Rightarrow> ''LogisticRegressionModel''
      | pa \<Rightarrow> ''PassiveAggressiveClassifier'' | dt \<Rightarrow> ''DecisionTreeClassifier'')"

definition print_accuracy_score ::
  "('x, 'f, 'r) libs \<Rightarrow> ('x, 'f, 'r) Model \<Rightarrow> (error + unit) \<times> ('x, 'f, 'r) Model" where
  "print_accuracy_score K s =
     (let msg = (if vectorizer_type s = Member Tfidf then ''TF-IDF'' else ''Count'')
      in case model_type s of
           Other x \<Rightarrow> (Inl (AttributeError ''value''), s)
         | Member m \<Rightarrow>
             (case accuracy_score K s of
                (Inl e, s1) \<Rightarrow> (Inl e, s1)
              | (Inr a, s1) \<Rightarrow>
                  (Inr (), s1\<lparr>stdout := stdout s1 @ [ScoreLine (ModelType_value m) msg a]\<rparr>)))"

definition print_classification_report ::
  "('x, 'f, 'r) libs \<Rightarrow> ('x, 'f, 'r) Model \<Rightarrow> (error + unit) \<times> ('x, 'f, 'r) Model" where
  "print_classification_report K s =
     (case split K s of
        (Inl e, s1) \<Rightarrow> (Inl e, s1)
      | (Inr sp, s1) \<Rightarrow>
          (case predict K s1 of
             (Inl e, s2) \<Rightarrow> (Inl e, s2)
           | (Inr ys, s2) \<Rightarrow>
               (case sk_classification_report K (map snd (category_test sp)) ys of
                  Inl e \<Rightarrow> (Inl e, s2)
                | Inr report \<Rightarrow> (Inr (), s2\<lparr>stdout := stdout s2 @ [ReportText report]\<rparr>))))"

definition run ::
  "env \<Rightarrow> ('x, 'f, 'r) libs \<Rightarrow> ('x, 'f, 'r) Model \<Rightarrow> (error + unit) \<times> ('x, 'f, 'r) Model" where
  "run E K s =
     (case pre_processor E K s of
        (Inl e, s1) \<Rightarrow> (Inl e, s1)
      | (Inr u, s1) \<Rightarrow>
          (case fit K s1 of
             (Inl e, s2) \<Rightarrow> (Inl e, s2)
           | (Inr u, s2) \<Rightarrow>
               (case print_accuracy_score K s2 of
                  (Inl e, s3) \<Rightarrow> (Inl e, s3)
                | (Inr u, s3) \<Rightarrow> print_classification_report K s3)))"

subsection \<open>A concrete set of libraries\<close>

text \<open>
  For evaluating the pipeline on concrete data: a few small files, and the libraries
  reduced to what they do on these files.
  \<^item> The generator's state counts the draws, and a shuffle rotates the rows by it: each
    state gives one permutation of the rows, as each state of NumPy's generator does.
  \<^item> The split is scikit-learn's stratified split with its sizes and its errors: four
    fifths of the rows, rounded down, for training and the rest for testing; the training
    rows divided between the classes in proportion, the odd ones going to the classes with
    the largest remainders, and the other rows of each class left for testing; an error
    when the training part would be empty, when a class has a single row, or when a part
    has fewer rows than there are classes. Which rows of a class go where (scikit-learn
    draws them with the seed 19) is not modelled: the first ones are taken for training.
  \<^item> A vectorizer learns the runs of one to three tokens (a token is two or more word
    characters) that occur in exactly one training text, for \<^verbatim>\<open>max_df=1\<close> prunes those that
    occur in more, and raises \<^verbatim>\<open>ValueError\<close> when none remains. The feature matrix has a
    row for each text and a column for each run learned; in place of the weight it holds
    the number of occurrences, which is zero exactly where the weight is.
  \<^item> An estimator is reduced to what naive Bayes does on a row of zeros: it predicts the
    most frequent training label, the smaller one of two equally frequent. The
    evaluations below use it on such rows only.
  \<^item> A score is the pair of the number of hits and the number of rows. The report is
    given two target names, and raises \<^verbatim>\<open>ValueError\<close> unless two labels occur.
\<close>

definition news :: "pystr \<Rightarrow> cell list" where
  "news t = [Str (cps ''t''), Str t, Str (cps ''s''), Str (cps ''d'')]"

definition news_table :: "string list \<Rightarrow> table" where
  "news_table ts =
     \<lparr>columns = [''title'', ''text'', ''subject'', ''date''], cells = map (\<lambda>t. news (cps t)) ts\<rparr>"

definition true_csv :: table where
  "true_csv = news_table [''hello'', ''hello'', ''hello'', ''hello'', ''hello'']"

definition fake_csv :: table where
  "fake_csv = news_table [''covid~19'', ''covid~19'', ''covid~19'', ''covid~19'', ''covid~19'']"

definition true6_csv :: table where
  "true6_csv = news_table [''ant'', ''bee'', ''cat'', ''dog'', ''elk'', ''fox'']"

definition fake6_csv :: table where
  "fake6_csv = news_table [''gnu'', ''hen'', ''owl'', ''pig'', ''rat'', ''yak'']"

text \<open>A file whose second row has no text, and a file without the column \<^verbatim>\<open>date\<close>.\<close>

definition gap_csv :: table where
  "gap_csv =
     \<lparr>columns = [''title'', ''text'', ''subject'', ''date''],
      cells = [news (cps ''hello''), [Str (cps ''t''), NaN, Str (cps ''s''), Str (cps ''d'')]]\<rparr>"

definition undated_csv :: table where
  "undated_csv =
     \<lparr>columns = [''title'', ''text'', ''subject''],
      cells = [[Str (cps ''t''), Str (cps ''hello''), Str (cps ''s'')]]\<rparr>"

definition class_positions :: "int list \<Rightarrow> int \<Rightarrow> nat list" where
  "class_positions ys c = filter (\<lambda>p. ys ! p = c) [0..<length ys]"

text \<open>\<open>n\<close> draws divided between classes of the given sizes in proportion: the integer parts
  first, then one more for the classes with the largest remainders (of classes with
  equal remainders the earlier ones).\<close>

definition approximate_mode :: "nat list \<Rightarrow> nat \<Rightarrow> nat list" where
  "approximate_mode counts n =
     (let total = sum_list counts;
          floors = map (\<lambda>c. n * c div total) counts;
          need = n - sum_list floors;
          by_remainder = sort_key (\<lambda>i. - int (n * (counts ! i) mod total)) [0..<length counts];
          extra = take need by_remainder
      in map (\<lambda>i. floors ! i + (if i \<in> set extra then 1 else 0)) [0..<length counts])"

definition stratified_split :: "int list \<Rightarrow> error + nat list \<times> nat list" where
  "stratified_split ys =
     (let n = length ys;
          n_train = 4 * n div 5;
          n_test = n - n_train;
          classes = sort (remdups ys);
          counts = map (\<lambda>c. length (class_positions ys c)) classes
      in if n_train = 0 then Inl (ValueError ''the resulting train set will be empty'')
         else if \<exists>c\<in>set counts. c < 2
           then Inl (ValueError ''The least populated class in y has only 1 member'')
         else if n_train < length classes
           then Inl (ValueError ''The train_size should be greater or equal to the number of classes'')
         else if n_test < length classes
           then Inl (ValueError ''The test_size should be greater or equal to the number of classes'')
         else
           let n_i = approximate_mode counts n_train;
               chosen = (\<lambda>i. class_positions ys (classes ! i))
           in Inr (concat (map (\<lambda>i. take (n_i ! i) (chosen i)) [0..<length classes]),
                   concat (map (\<lambda>i. drop (n_i ! i) (chosen i)) [0..<length classes])))"

text \<open>The tokens of a text for scikit-learn: lower-cased, the runs of two or more word
  characters; and the runs of one, two and three tokens.\<close>

definition sk_tokens :: "pystr \<Rightarrow> pystr list" where
  "sk_tokens t = filter (\<lambda>w. 2 \<le> length w) (tokenize plain_env (py_lower plain_env t))"

definition ngrams :: "pystr list \<Rightarrow> pystr list" where
  "ngrams ts =
     ts @ map (\<lambda>i. py_join [0x20] (take 2 (drop i ts))) [0..<length ts - 1] @
     map (\<lambda>i. py_join [0x20] (take 3 (drop i ts))) [0..<length ts - 2]"

definition terms :: "cell \<Rightarrow> pystr list" where
  "terms c = (case c of Str t \<Rightarrow> ngrams (sk_tokens t) | NaN \<Rightarrow> [])"

definition learn_vocabulary :: "cell list \<Rightarrow> error + pystr list" where
  "learn_vocabulary docs =
     (if NaN \<in> set docs then Inl (ValueError ''np.nan is an invalid document'')
      else
        let found = remdups (concat (map terms docs))
        in if found = [] then Inl (ValueError ''empty vocabulary'')
           else
             let kept = filter (\<lambda>w. length (filter (\<lambda>d. w \<in> set (terms d)) docs) \<le> 1) found
             in if kept = [] then Inl (ValueError ''After pruning, no terms remain'')
                else Inr kept)"

record features =
  vocabulary :: "pystr list"
  term_counts :: "nat list list"

definition count_terms :: "pystr list \<Rightarrow> cell list \<Rightarrow> error + features" where
  "count_terms vocab docs =
     (if NaN \<in> set docs then Inl (ValueError ''np.nan is an invalid document'')
      else Inr \<lparr>vocabulary = vocab,
                term_counts = map (\<lambda>d. map (\<lambda>w. length (filter (\<lambda>u. u = w) (terms d))) vocab) docs\<rparr>)"

definition class_counts :: "int list \<Rightarrow> (int \<times> nat) list" where
  "class_counts ys = map (\<lambda>c. (c, length (class_positions ys c))) (sort (remdups ys))"

definition most_frequent :: "(int \<times> nat) list \<Rightarrow> int" where
  "most_frequent cs = fst (foldl (\<lambda>best c. if snd best < snd c then c else best) (hd cs) (tl cs))"

definition plain_libs :: "(features, (int \<times> nat) list, nat \<times> nat) libs" where
  "plain_libs =
     \<lparr>read_csv = (\<lambda>path. if path = ''True.csv'' then Inr true_csv
                         else if path = ''Fake.csv'' then Inr fake_csv
                         else if path = ''Empty.csv'' then Inr (news_table [])
                         else if path = ''True6.csv'' then Inr true6_csv
                         else if path = ''Fake6.csv'' then Inr fake6_csv
                         else if path = ''Gap.csv'' then Inr gap_csv
                         else if path = ''Undated.csv'' then Inr undated_csv
                         else Inl (LibraryError ''FileNotFoundError'')),
      df_sample = (\<lambda>g rows. (rotate g rows, Suc g)),
      train_test_split = stratified_split,
      fit_transform = (\<lambda>v docs. case learn_vocabulary docs of
                                   Inl e \<Rightarrow> Inl e
                                 | Inr vocab \<Rightarrow> count_terms vocab docs),
      transform = (\<lambda>v fitted_on docs. case learn_vocabulary fitted_on of
                                        Inl e \<Rightarrow> Inl e
                                      | Inr vocab \<Rightarrow> count_terms vocab docs),
      shape = (\<lambda>x. (length (term_counts x), length (vocabulary x))),
      estimator_fit = (\<lambda>est x ys g. (Inr (class_counts ys), g)),
      estimator_predict = (\<lambda>f x. Inr (map (\<lambda>row. most_frequent f) (term_counts x))),
      sk_accuracy_score =
        (\<lambda>ys zs. if length ys \<noteq> length zs
                  then Inl (ValueError ''Found input variables with inconsistent numbers of samples'')
                  else Inr (length (filter (\<lambda>(y, z). y = z) (zip ys zs)), length ys)),
      sk_classification_report =
        (\<lambda>ys zs. if length (remdups (ys @ zs)) \<noteq> 2
                  then Inl (ValueError ''Number of classes does not match size of target_names'')
                  else Inr ''report'')\<rparr>"

text \<open>The object that \<^verbatim>\<open>Model(...)\<close> builds from two files read, with the default sample
  size, when the generator is in state 0.\<close>

definition fresh_model ::
  "table \<Rightarrow> table \<Rightarrow> VectorizerType arg \<Rightarrow> ModelType arg \<Rightarrow>
     (features, (int \<times> nat) list, nat \<times> nat) Model" where
  "fresh_model t f vt mt =
     \<lparr>priv_df = None, true_news = t, fake_news = f, vectorizer_type = vt,
      sample_size = 1000, priv_split = None, priv_vectorize = None,
      model_type = mt, model = create_model mt, fitted = None,
      priv_score = None, rng = 0, stdout = []\<rparr>"


section \<open>Properties of the regular expressions\<close>

lemma rmatch_suffix: "rmatch r s = Some t \<Longrightarrow> \<exists>p. s = p @ t"
proof (induction r s arbitrary: t rule: rmatch.induct)
  case (5 p r x xs)
  show ?case
  proof (cases "p x \<and> rmatch (Many p # r) xs \<noteq> None")
    case True
    with 5 obtain q where "xs = q @ t" by (auto split: option.splits)
    then have "x # xs = (x # q) @ t" by simp
    then show ?thesis by blast
  next
    case False
    with 5 show ?thesis by (auto split: if_splits option.splits)
  qed
next
  case (3 p r x xs)
  then obtain q where "xs = q @ t" by (auto split: if_splits)
  then have "x # xs = (x # q) @ t" by simp
  then show ?case by blast
qed auto

lemma rmatch_set: "rmatch r s = Some t \<Longrightarrow> set t \<subseteq> set s"
  using rmatch_suffix by fastforce

lemma rmatch_length: "rmatch r s = Some t \<Longrightarrow> length t \<le> length s"
  using rmatch_suffix by fastforce

lemma many_matches: "rmatch [Many p] s \<noteq> None"
  by (induction s) (auto split: option.splits)

lemma many_dropWhile: "rmatch [Many p] s = Some (dropWhile p s)"
  by (induction s) auto

lemma rmatch_One: "rmatch (One p # r) s = (case s of [] \<Rightarrow> None | x # xs \<Rightarrow> if p x then rmatch r xs else None)"
  by (cases s) auto

lemma rmatch_nonempty:
  "\<exists>p. One p \<in> set r \<Longrightarrow> rmatch r s = Some t \<Longrightarrow> length t < length s"
proof (induction r s arbitrary: t rule: rmatch.induct)
  case (3 p r x xs)
  then have "rmatch r xs = Some t" by (auto split: if_splits)
  then have "length t \<le> length xs" by (rule rmatch_length)
  then show ?case by simp
next
  case (4 p r)
  then show ?case by auto
next
  case (5 p r x xs)
  from 5(4) have one: "\<exists>q. One q \<in> set r" by auto
  show ?case
  proof (cases "p x \<and> rmatch (Many p # r) xs \<noteq> None")
    case True
    with 5 have "length t < length xs" by (auto split: option.splits)
    then show ?thesis by simp
  next
    case False
    with 5(5) have "rmatch r (x # xs) = Some t" by (auto split: if_splits option.splits)
    with 5 False one show ?thesis by (auto split: if_splits option.splits)
  qed
qed auto

lemma re_sub_subset: "set (re_sub r [] s) \<subseteq> set s"
proof (induction r "[]::pystr" s rule: re_sub.induct)
  case (1 r)
  then show ?case by simp
next
  case (2 r x xs)
  show ?case
  proof (cases "rmatch r (x # xs)")
    case None
    with 2 show ?thesis by auto
  next
    case (Some t)
    show ?thesis
    proof (cases "length t < length (x # xs)")
      case True
      with 2 Some have "set (re_sub r [] t) \<subseteq> set t" by simp
      moreover have "set t \<subseteq> set (x # xs)" using Some by (rule rmatch_set)
      ultimately show ?thesis using Some True by auto
    next
      case False
      with 2 Some show ?thesis by auto
    qed
  qed
qed

lemma re_sub_one: "re_sub [One p] [] s = filter (\<lambda>c. \<not> p c) s"
  by (induction s) auto

lemma re_split_from_chars:
  "tok \<in> set (re_split_from r cur s) \<Longrightarrow> c \<in> set tok \<Longrightarrow>
     c \<in> set cur \<or> (c \<in> set s \<and> (\<exists>t. rmatch r (c # t) = None \<or> (\<exists>u. rmatch r (c # t) = Some u \<and> \<not> length u < Suc (length t))))"
proof (induction r cur s arbitrary: tok rule: re_split_from.induct)
  case (1 r cur)
  then show ?case by simp
next
  case (2 r cur x xs)
  show ?case
  proof (cases "rmatch r (x # xs)")
    case None
    with 2 have "c \<in> set (x # cur) \<or> (c \<in> set xs \<and> (\<exists>t. rmatch r (c # t) = None \<or> (\<exists>u. rmatch r (c # t) = Some u \<and> \<not> length u < Suc (length t))))"
      by simp
    with None show ?thesis by auto
  next
    case (Some t)
    show ?thesis
    proof (cases "length t < length (x # xs)")
      case True
      have sub: "set t \<subseteq> set (x # xs)" using Some by (rule rmatch_set)
      from 2 Some True have "tok = rev cur \<or> tok \<in> set (re_split_from r [] t)" by simp
      then show ?thesis
      proof
        assume "tok = rev cur"
        with 2 show ?thesis by simp
      next
        assume "tok \<in> set (re_split_from r [] t)"
        with 2(2)[OF Some True this 2(5)] sub show ?thesis by auto
      qed
    next
      case False
      with 2 Some have "c \<in> set (x # cur) \<or> (c \<in> set xs \<and> (\<exists>t. rmatch r (c # t) = None \<or> (\<exists>u. rmatch r (c # t) = Some u \<and> \<not> length u < Suc (length t))))"
        by simp
      with Some False show ?thesis by auto
    qed
  qed
qed


section \<open>Properties of the cleaner\<close>

lemma clean_text_stages:
  "clean_text E text =
     py_join [0x20] (lemmatizer E (tokenize E (remove_new_lines (remove_accent_signs
       (remove_numbers E (remove_stopwords E (remove_urls (remove_between_square_brackets
         (py_lower E (strip_html E text))))))))))"
  by (simp add: clean_text_def)

lemma nonword_match: "\<not> is_word E c \<Longrightarrow> \<exists>u. rmatch (nonword_pattern E) (c # t) = Some u \<and> length u < Suc (length t)"
proof -
  assume nw: "\<not> is_word E c"
  have many: "\<And>s. \<exists>u. rmatch [Many (\<lambda>c. \<not> is_word E c)] s = Some u \<and> length u \<le> length s"
  proof -
    fix s show "\<exists>u. rmatch [Many (\<lambda>c. \<not> is_word E c)] s = Some u \<and> length u \<le> length s"
      by (induction s) (auto intro: le_SucI)
  qed
  from many[of t] nw show ?thesis by (auto simp: nonword_pattern_def)
qed

lemma tokenize_word_chars:
  assumes "tok \<in> set (tokenize E text)" and "c \<in> set tok"
  shows "is_word E c"
proof (rule ccontr)
  assume nw: "\<not> is_word E c"
  from re_split_from_chars[OF assms[unfolded tokenize_def re_split_def]]
  obtain t where "rmatch (nonword_pattern E) (c # t) = None \<or> (\<exists>u. rmatch (nonword_pattern E) (c # t) = Some u \<and> \<not> length u < Suc (length t))"
    by auto
  with nonword_match[OF nw, of t] show False by auto
qed

lemma tokenize_subset:
  assumes "tok \<in> set (tokenize E text)" and "c \<in> set tok"
  shows "c \<in> set text"
  using re_split_from_chars[OF assms[unfolded tokenize_def re_split_def]] by auto

lemma py_join_set: "c \<in> set (py_join sep ws) \<Longrightarrow> c \<in> set sep \<or> (\<exists>w\<in>set ws. c \<in> set w)"
  by (induction sep ws rule: py_join.induct) auto

lemma number_match_digit:
  assumes "is_digit E x"
  shows "rmatch (number_pattern E) (x # xs) \<noteq> None"
proof -
  obtain u where u: "rmatch [Many (is_word E)] xs = Some u"
    using many_matches[of "is_word E" xs] by auto
  have stop: "rmatch [One (is_digit E), Many (is_word E)] (x # xs) = Some u"
    using assms u by simp
  then show ?thesis
    by (auto simp: number_pattern_def split: option.splits)
qed

lemma remove_numbers_no_digit: "c \<in> set (remove_numbers E text) \<Longrightarrow> \<not> is_digit E c"
  unfolding remove_numbers_def
proof (induction "number_pattern E" "[]::pystr" "text" rule: re_sub.induct)
  case 1
  then show ?case by simp
next
  case (2 x xs)
  show ?case
  proof (cases "rmatch (number_pattern E) (x # xs)")
    case None
    then have "\<not> is_digit E x" using number_match_digit[of E x xs] by auto
    with 2 None show ?thesis by auto
  next
    case (Some t)
    have "\<exists>p. One p \<in> set (number_pattern E)" by (auto simp: number_pattern_def)
    then have "length t < length (x # xs)" using Some by (rule rmatch_nonempty)
    with 2 Some show ?thesis by auto
  qed
qed

lemma clean_text_chars:
  assumes "c \<in> set (clean_text E text)"
  shows "c = 0x20 \<or> (\<exists>tok. c \<in> set (wordnet_lemmatize E tok) \<and> (\<forall>d\<in>set tok. is_word E d \<and> \<not> is_digit E d))"
proof -
  define t6 where "t6 = remove_numbers E (remove_stopwords E (remove_urls
     (remove_between_square_brackets (py_lower E (strip_html E text)))))"
  define t8 where "t8 = remove_new_lines (remove_accent_signs t6)"
  have out: "clean_text E text = py_join [0x20] (lemmatizer E (tokenize E t8))"
    by (simp add: clean_text_def t8_def t6_def)
  have sub: "set t8 \<subseteq> set t6"
    unfolding t8_def remove_new_lines_def remove_accent_signs_def
    using re_sub_subset by blast
  from assms out py_join_set[of c "[0x20]"]
  consider "c = 0x20" | w where "w \<in> set (lemmatizer E (tokenize E t8))" "c \<in> set w"
    by auto
  then show ?thesis
  proof cases
    case 1
    then show ?thesis by simp
  next
    case 2
    then obtain tok where tok: "tok \<in> set (tokenize E t8)" "w = wordnet_lemmatize E tok"
      by (auto simp: lemmatizer_def)
    have "\<forall>d\<in>set tok. is_word E d \<and> \<not> is_digit E d"
    proof
      fix d assume d: "d \<in> set tok"
      have "d \<in> set t6" using tokenize_subset[OF tok(1) d] sub by auto
      then have "\<not> is_digit E d" unfolding t6_def by (rule remove_numbers_no_digit)
      with tokenize_word_chars[OF tok(1) d] show "is_word E d \<and> \<not> is_digit E d" by simp
    qed
    with 2 tok show ?thesis by auto
  qed
qed


lemma starts_with_iff: "starts_with sub s \<longleftrightarrow> (\<exists>q. s = sub @ q)"
  by (induction sub s rule: starts_with.induct) auto

lemma py_contains_iff: "py_contains sub s \<longleftrightarrow> (\<exists>p q. s = p @ sub @ q)"
proof (induction s)
  case Nil
  then show ?case by auto
next
  case (Cons x xs)
  show ?case
  proof
    assume "py_contains sub (x # xs)"
    then consider "starts_with sub (x # xs)" | "py_contains sub xs" by auto
    then show "\<exists>p q. x # xs = p @ sub @ q"
    proof cases
      case 1
      then obtain q where "x # xs = [] @ sub @ q" by (auto simp: starts_with_iff)
      then show ?thesis by blast
    next
      case 2
      with Cons obtain p q where "xs = p @ sub @ q" by auto
      then have "x # xs = (x # p) @ sub @ q" by simp
      then show ?thesis by blast
    qed
  next
    assume "\<exists>p q. x # xs = p @ sub @ q"
    then obtain p q where pq: "x # xs = p @ sub @ q" by auto
    show "py_contains sub (x # xs)"
    proof (cases p)
      case Nil
      with pq have "starts_with sub (x # xs)" unfolding starts_with_iff by auto
      then show ?thesis by simp
    next
      case (Cons y ys)
      with pq have "xs = ys @ sub @ q" by simp
      with Cons.IH show ?thesis by auto
    qed
  qed
qed


subsection \<open>The URL stage\<close>

lemma url_match_eq:
  "rmatch url_pattern s =
     (case s of a # b # c # d # e # rest \<Rightarrow>
        if a = 0x68 \<and> b = 0x74 \<and> c = 0x74 \<and> d = 0x70 \<and> \<not> is_space e
        then Some (dropWhile (\<lambda>c. \<not> is_space c) rest) else None
      | _ \<Rightarrow> None)"
  by (simp add: url_pattern_def rmatch_One many_dropWhile split: list.splits)

lemma url_match_shorter: "rmatch url_pattern s = Some t \<Longrightarrow> length t < length s"
proof -
  have "\<exists>p. One p \<in> set url_pattern" by (auto simp: url_pattern_def)
  then show "rmatch url_pattern s = Some t \<Longrightarrow> length t < length s" by (rule rmatch_nonempty)
qed

lemma remove_urls_Nil: "remove_urls [] = []"
  by (simp add: remove_urls_def)

lemma remove_urls_Cons:
  "remove_urls (x # xs) =
     (case rmatch url_pattern (x # xs) of None \<Rightarrow> x # remove_urls xs | Some t \<Rightarrow> remove_urls t)"
proof (cases "rmatch url_pattern (x # xs)")
  case None
  then show ?thesis by (simp add: remove_urls_def)
next
  case (Some t)
  from url_match_shorter[OF Some] Some show ?thesis by (simp add: remove_urls_def)
qed

lemma url_chars_not_space: "\<not> is_space 0x68" "\<not> is_space 0x74" "\<not> is_space 0x70"
  by (simp_all add: is_space_def)

lemma url_match_first: "rmatch url_pattern (x # xs) = Some t \<Longrightarrow> x = 0x68"
  by (simp add: url_match_eq split: list.splits if_splits)

lemma remove_urls_space: "is_space x \<Longrightarrow> remove_urls (x # xs) = x # remove_urls xs"
proof -
  assume sp: "is_space x"
  have "rmatch url_pattern (x # xs) = None"
  proof (cases "rmatch url_pattern (x # xs)")
    case (Some t)
    then have "x = 0x68" by (rule url_match_first)
    with sp url_chars_not_space(1) show ?thesis by simp
  qed simp
  then show ?thesis by (simp add: remove_urls_Cons)
qed

lemma url_match_rest:
  "rmatch url_pattern s = Some t \<Longrightarrow> \<exists>u. t = dropWhile (\<lambda>c. \<not> is_space c) u"
  by (auto simp add: url_match_eq split: list.splits if_splits)

lemma url_match_head:
  assumes "rmatch url_pattern s = Some t"
  shows "t = [] \<or> is_space (hd t)"
proof -
  from url_match_rest[OF assms] obtain u where u: "t = dropWhile (\<lambda>c. \<not> is_space c) u" ..
  show ?thesis
  proof (cases "t = []")
    case False
    with u hd_dropWhile[of "\<lambda>c. \<not> is_space c" u] show ?thesis by simp
  qed simp
qed

lemma remove_urls_head:
  "take k (remove_urls s) = take k s \<or> (\<exists>j<k. length (remove_urls s) \<le> j \<or> is_space (remove_urls s ! j))"
proof (induction s arbitrary: k rule: length_induct)
  case (1 s)
  show ?case
  proof (cases s)
    case Nil
    then show ?thesis by (simp add: remove_urls_Nil)
  next
    case (Cons x xs)
    show ?thesis
    proof (cases "rmatch url_pattern (x # xs)")
      case None
      then have eq: "remove_urls s = x # remove_urls xs" using Cons by (simp add: remove_urls_Cons)
      show ?thesis
      proof (cases k)
        case 0
        then show ?thesis by simp
      next
        case (Suc k')
        from 1 Cons have "take k' (remove_urls xs) = take k' xs \<or>
          (\<exists>j<k'. length (remove_urls xs) \<le> j \<or> is_space (remove_urls xs ! j))" by simp
        then show ?thesis
        proof
          assume "take k' (remove_urls xs) = take k' xs"
          then show ?thesis using eq Cons Suc by simp
        next
          assume "\<exists>j<k'. length (remove_urls xs) \<le> j \<or> is_space (remove_urls xs ! j)"
          then obtain j where "j < k'" "length (remove_urls xs) \<le> j \<or> is_space (remove_urls xs ! j)" by auto
          then have "Suc j < k" "length (remove_urls s) \<le> Suc j \<or> is_space (remove_urls s ! Suc j)"
            using eq Suc by auto
          then show ?thesis by blast
        qed
      qed
    next
      case (Some t)
      then have eq: "remove_urls s = remove_urls t" using Cons by (simp add: remove_urls_Cons)
      from url_match_head[OF Some] have hd0: "length (remove_urls t) \<le> 0 \<or> is_space (remove_urls t ! 0)"
        by (cases t) (auto simp: remove_urls_Nil remove_urls_space)
      show ?thesis
      proof (cases k)
        case 0
        then show ?thesis by simp
      next
        case (Suc k')
        with hd0 eq show ?thesis by auto
      qed
    qed
  qed
qed

lemma remove_urls_no_match:
  "remove_urls s = a @ b \<Longrightarrow> rmatch url_pattern b = None"
proof (induction s arbitrary: a b rule: length_induct)
  case (1 s)
  show ?case
  proof (cases s)
    case Nil
    with 1 show ?thesis by (simp add: remove_urls_Nil url_match_eq)
  next
    case (Cons x xs)
    show ?thesis
    proof (cases "rmatch url_pattern (x # xs)")
      case (Some t)
      have len: "length t < length s" using url_match_shorter[OF Some] Cons by simp
      from Some Cons 1(2) have "remove_urls t = a @ b" by (simp add: remove_urls_Cons)
      with 1(1) len show ?thesis by blast
    next
      case None
      then have eq: "x # remove_urls xs = a @ b" using Cons 1(2) by (simp add: remove_urls_Cons)
      show ?thesis
      proof (cases a)
        case (Cons y ys)
        with eq have "remove_urls xs = ys @ b" by simp
        with 1(1) \<open>s = x # xs\<close> show ?thesis by auto
      next
        case Nil
        with eq have b: "b = x # remove_urls xs" by simp
        show ?thesis
        proof (rule ccontr)
          assume "rmatch url_pattern b \<noteq> None"
          then obtain e rest where m: "x = 0x68" "remove_urls xs = 0x74 # 0x74 # 0x70 # e # rest" "\<not> is_space e"
            using b by (auto simp: url_match_eq split: list.splits if_splits)
          have nsp: "\<not> is_space 0x74" "\<not> is_space 0x70" by (simp_all add: is_space_def)
          have "\<not> (\<exists>j<4. length (remove_urls xs) \<le> j \<or> is_space (remove_urls xs ! j))"
          proof
            assume "\<exists>j<4. length (remove_urls xs) \<le> j \<or> is_space (remove_urls xs ! j)"
            then obtain j where j: "j < 4" "length (remove_urls xs) \<le> j \<or> is_space (remove_urls xs ! j)"
              by auto
            from j(1) have "j = 0 \<or> j = 1 \<or> j = 2 \<or> j = 3" by arith
            with j(2) m nsp show False by auto
          qed
          with remove_urls_head[of 4 xs] have "take 4 (remove_urls xs) = take 4 xs" by blast
          with m(2) have tk: "take 4 xs = [0x74, 0x74, 0x70, e]" by simp
          then have "xs = [0x74, 0x74, 0x70, e] @ drop 4 xs" by (metis append_take_drop_id)
          then obtain rest' where "xs = 0x74 # 0x74 # 0x70 # e # rest'" by simp
          with m None show False by (simp add: url_match_eq)
        qed
      qed
    qed
  qed
qed

lemma long_list: "5 \<le> length xs \<Longrightarrow> \<exists>a b c d e r. xs = a # b # c # d # e # r"
  by (auto simp: Suc_le_length_iff eval_nat_numeral)

lemma short_list:
  "length xs < 5 \<Longrightarrow> xs = [] \<or> (\<exists>a. xs = [a]) \<or> (\<exists>a b. xs = [a, b]) \<or> (\<exists>a b c. xs = [a, b, c]) \<or>
     (\<exists>a b c d. xs = [a, b, c, d])"
  by (cases xs; simp; rename_tac ys; case_tac ys; simp; rename_tac zs; case_tac zs; simp;
      rename_tac us; case_tac us; simp)

lemma url_match_append:
  assumes "pre \<noteq> []" and "is_space (last pre)"
  shows "rmatch url_pattern (pre @ s) = map_option (\<lambda>t. t @ s) (rmatch url_pattern pre)"
proof (cases "length pre < 5")
  case True
  from short_list[OF this] assms url_chars_not_space show ?thesis
    by (auto simp: url_match_eq split: list.splits)
next
  case False
  then obtain a b c d e r where pre: "pre = a # b # c # d # e # r"
    using long_list[of pre] by auto
  show ?thesis
  proof (cases "a = 0x68 \<and> b = 0x74 \<and> c = 0x74 \<and> d = 0x70 \<and> \<not> is_space e")
    case False
    with pre show ?thesis by (auto simp: url_match_eq)
  next
    case True
    with assms pre have "r \<noteq> []" by auto
    with assms pre have "last r \<in> set r" "is_space (last r)" by auto
    then have "dropWhile (\<lambda>c. \<not> is_space c) (r @ s) = dropWhile (\<lambda>c. \<not> is_space c) r @ s"
      by (intro dropWhile_append1) auto
    with True pre show ?thesis by (simp add: url_match_eq)
  qed
qed

lemma url_match_last:
  assumes "pre \<noteq> []" and "is_space (last pre)" and "rmatch url_pattern pre = Some t"
  shows "t \<noteq> [] \<and> is_space (last t)"
proof -
  from assms(3) obtain a b c d e r where pre: "pre = a # b # c # d # e # r" "\<not> is_space e"
    "t = dropWhile (\<lambda>c. \<not> is_space c) r"
    by (auto simp: url_match_eq split: list.splits if_splits)
  with assms have r: "r \<noteq> []" "is_space (last r)" by (auto split: if_splits)
  then have "last r \<in> set r" by simp
  with r have ne: "dropWhile (\<lambda>c. \<not> is_space c) r \<noteq> []" by (auto simp: dropWhile_eq_Nil_conv)
  have "r = takeWhile (\<lambda>c. \<not> is_space c) r @ dropWhile (\<lambda>c. \<not> is_space c) r" by simp
  then have "last r = last (dropWhile (\<lambda>c. \<not> is_space c) r)" using ne by (metis last_appendR)
  with ne r pre show ?thesis by simp
qed

lemma remove_urls_append:
  "pre = [] \<or> is_space (last pre) \<Longrightarrow> remove_urls (pre @ s) = remove_urls pre @ remove_urls s"
proof (induction pre rule: length_induct)
  case (1 pre)
  show ?case
  proof (cases pre)
    case Nil
    then show ?thesis by (simp add: remove_urls_Nil)
  next
    case (Cons x xs)
    with 1(2) have sp: "is_space (last (x # xs))" by simp
    have m: "rmatch url_pattern ((x # xs) @ s) = map_option (\<lambda>t. t @ s) (rmatch url_pattern (x # xs))"
      using sp by (intro url_match_append) auto
    show ?thesis
    proof (cases "rmatch url_pattern (x # xs)")
      case None
      have "xs = [] \<or> is_space (last xs)" using sp by (cases xs) auto
      moreover have "length xs < length pre" using Cons by simp
      ultimately have "remove_urls (xs @ s) = remove_urls xs @ remove_urls s"
        using 1(1) by blast
      with None m Cons show ?thesis by (simp add: remove_urls_Cons)
    next
      case (Some t)
      from url_match_last[OF _ sp Some] have t: "t \<noteq> []" "is_space (last t)" by auto
      from url_match_shorter[OF Some] Cons have "length t < length pre" by simp
      with 1(1) t have "remove_urls (t @ s) = remove_urls t @ remove_urls s" by blast
      with Some m Cons show ?thesis by (simp add: remove_urls_Cons)
    qed
  qed
qed

lemma remove_urls_run:
  assumes "rest \<noteq> []" and "\<forall>c\<in>set rest. \<not> is_space c" and "post = [] \<or> is_space (hd post)"
  shows "remove_urls (cps ''http'' @ rest @ post) = remove_urls post"
proof -
  from assms(1) obtain e r where rest: "rest = e # r" by (cases rest) auto
  have "dropWhile (\<lambda>c. \<not> is_space c) (r @ post) = post"
  proof (cases post)
    case Nil
    with assms(2) rest show ?thesis by simp
  next
    case (Cons y ys)
    with assms(3) have "is_space y" by simp
    with assms(2) rest Cons show ?thesis by (simp add: dropWhile_append)
  qed
  with assms(2) rest have "rmatch url_pattern (cps ''http'' @ rest @ post) = Some post"
    by (simp add: url_match_eq cps_def)
  then show ?thesis by (simp add: remove_urls_Cons cps_def)
qed


subsection \<open>The bracket stage\<close>

lemma bracket_match_inner:
  "\<forall>c\<in>set w. c \<noteq> 0x5D \<Longrightarrow>
     rmatch [Many (\<lambda>c. c \<noteq> 0x5D), One (\<lambda>c. c = 0x5D)] (w @ 0x5D # b) = Some b"
  by (induction w) auto

lemma bracket_match_span:
  assumes "0x5D \<notin> set w"
  shows "rmatch bracket_pattern (0x5B # w @ 0x5D # b) = Some b"
proof -
  have "\<forall>c\<in>set w. c \<noteq> 0x5D" using assms by auto
  then show ?thesis
    by (simp add: bracket_pattern_def bracket_match_inner)
qed

lemma bracket_no_match: "x \<noteq> 0x5B \<Longrightarrow> rmatch bracket_pattern (x # xs) = None"
  by (simp add: bracket_pattern_def)

lemma dropWhile_first: "c \<notin> set u \<Longrightarrow> dropWhile (\<lambda>x. x \<noteq> c) (u @ c # v) = c # v"
  by (induction u) auto

lemma bracket_no_close:
  "0x5D \<notin> set xs \<Longrightarrow> rmatch [Many (\<lambda>c. c \<noteq> 0x5D), One (\<lambda>c. c = 0x5D)] xs = None"
  by (induction xs) auto

lemma remove_brackets_open:
  "remove_between_square_brackets (0x5B # xs) =
     (if 0x5D \<in> set xs then remove_between_square_brackets (tl (dropWhile (\<lambda>c. c \<noteq> 0x5D) xs))
      else 0x5B # remove_between_square_brackets xs)"
proof (cases "0x5D \<in> set xs")
  case True
  then obtain u v where uv: "xs = u @ 0x5D # v" "0x5D \<notin> set u"
    by (meson split_list_first)
  then have d: "dropWhile (\<lambda>c. c \<noteq> 0x5D) xs = 0x5D # v"
    by (simp add: dropWhile_first)
  have "rmatch bracket_pattern (0x5B # u @ 0x5D # v) = Some v"
    using uv(2) by (rule bracket_match_span)
  then show ?thesis
    using True by (simp add: remove_between_square_brackets_def uv(1) d[unfolded uv(1)])
next
  case False
  then have "rmatch bracket_pattern (0x5B # xs) = None"
    by (simp add: bracket_pattern_def bracket_no_close)
  with False show ?thesis
    by (simp add: remove_between_square_brackets_def)
qed

lemma remove_brackets_other:
  "x \<noteq> 0x5B \<Longrightarrow> remove_between_square_brackets (x # xs) = x # remove_between_square_brackets xs"
  by (simp add: remove_between_square_brackets_def bracket_no_match)

lemma remove_brackets_span_anywhere:
  assumes "0x5D \<notin> set w"
  shows "remove_between_square_brackets (p @ [0x5B] @ w @ [0x5D] @ q) =
           takeWhile (\<lambda>c. c \<noteq> 0x5B) (remove_between_square_brackets p) @
           remove_between_square_brackets q"
proof (induction p rule: length_induct)
  case (1 p)
  show ?case
  proof (cases p)
    case Nil
    have "tl (dropWhile (\<lambda>c. c \<noteq> 0x5D) (w @ 0x5D # q)) = q"
      using assms by (simp add: dropWhile_first)
    then show ?thesis
      by (simp add: Nil remove_brackets_open) (simp add: remove_between_square_brackets_def)
  next
    case (Cons x xs)
    show ?thesis
    proof (cases "x = 0x5B")
      case False
      from 1 Cons have "remove_between_square_brackets (xs @ [0x5B] @ w @ [0x5D] @ q) =
           takeWhile (\<lambda>c. c \<noteq> 0x5B) (remove_between_square_brackets xs) @
           remove_between_square_brackets q"
        by simp
      with False show ?thesis
        by (simp add: Cons remove_brackets_other)
    next
      case True
      show ?thesis
      proof (cases "0x5D \<in> set xs")
        case False
        then have "tl (dropWhile (\<lambda>c. c \<noteq> 0x5D) (xs @ 0x5B # w @ 0x5D # q)) = q"
          using assms dropWhile_first[of "0x5D" "xs @ 0x5B # w" q] by simp
        with False show ?thesis
          by (simp add: Cons True remove_brackets_open)
      next
        case c: True
        then obtain u v where uv: "xs = u @ 0x5D # v" "0x5D \<notin> set u"
          by (meson split_list_first)
        have l: "length v < length p" by (simp add: Cons uv)
        have d1: "tl (dropWhile (\<lambda>c. c \<noteq> 0x5D) xs) = v"
          using uv by (simp add: dropWhile_first)
        have d2: "tl (dropWhile (\<lambda>c. c \<noteq> 0x5D) (xs @ 0x5B # w @ 0x5D # q)) = v @ 0x5B # w @ 0x5D # q"
          using uv by (simp add: dropWhile_first)
        from 1 l have "remove_between_square_brackets (v @ [0x5B] @ w @ [0x5D] @ q) =
           takeWhile (\<lambda>c. c \<noteq> 0x5B) (remove_between_square_brackets v) @
           remove_between_square_brackets q"
          by simp
        with c show ?thesis
          by (simp add: Cons True remove_brackets_open d1 d2)
      qed
    qed
  qed
qed


section \<open>The cleaner on concrete texts\<close>

lemma plain_env_sel:
  "bs4_get_text plain_env = (\<lambda>text. text)"
  "nltk_stopwords_english plain_env = nltk_english"
  "wordnet_lemmatize plain_env = (\<lambda>word. word)"
  "ucd_isalpha plain_env = (\<lambda>c. False)"
  "ucd_isdecimal plain_env = (\<lambda>c. False)"
  "ucd_isdigit plain_env = (\<lambda>c. False)"
  "ucd_isnumeric plain_env = (\<lambda>c. False)"
  "ucd_lower plain_env = (\<lambda>s i. [s ! i])"
  by (simp_all add: plain_env_def)

lemmas class_defs = is_space_def is_word_def is_alnum_def is_digit_def plain_env_sel

lemma lower_at_plain:
  "lower_at plain_env s i = [if 0x41 \<le> s ! i \<and> s ! i \<le> 0x5A then s ! i + 32 else s ! i]"
  by (auto simp: lower_at_def plain_env_sel Let_def)

lemma py_lower_plain:
  "py_lower plain_env s = map (\<lambda>c. if 0x41 \<le> c \<and> c \<le> 0x5A then c + 32 else c) s"
proof -
  have "py_lower plain_env s =
          map (\<lambda>i. if 0x41 \<le> s ! i \<and> s ! i \<le> 0x5A then s ! i + 32 else s ! i) [0..<length s]"
    unfolding py_lower_def lower_at_plain[abs_def] by (rule concat_map_singleton)
  also have "\<dots> = map (\<lambda>c. if 0x41 \<le> c \<and> c \<le> 0x5A then c + 32 else c)
                     (map (\<lambda>i. s ! i) [0..<length s])"
    by (simp add: comp_def)
  finally show ?thesis by (simp add: map_nth)
qed

lemma remove_stopwords_one:
  assumes "py_split text = [tok]" and "py_lower E (py_strip tok) \<notin> get_all_punctuations E"
  shows "remove_stopwords E text = py_strip (replace_punctuations tok)"
  using assms by (simp add: remove_stopwords_def)

text \<open>Each text below is followed through the stages of \<open>clean_text\<close>.\<close>

lemma clean_covid: "clean_text plain_env (cps ''covid~19'') = cps ''covid ''"
proof -
  have t0: "cps ''covid~19'' = [99, 111, 118, 105, 100, 126, 49, 57]"
    by (simp add: cps_def)
  have t1: "py_lower plain_env (strip_html plain_env [99, 111, 118, 105, 100, 126, 49, 57]) = [99, 111, 118, 105, 100, 126, 49, 57]"
    by (simp add: strip_html_def plain_env_sel py_lower_plain)
  have t2: "remove_urls (remove_between_square_brackets [99, 111, 118, 105, 100, 126, 49, 57]) = [99, 111, 118, 105, 100, 126, 49, 57]"
    by (simp add: remove_between_square_brackets_def bracket_pattern_def remove_urls_def
        url_pattern_def is_space_def)
  have s1: "py_split [99, 111, 118, 105, 100, 126, 49, 57] = [[99, 111, 118, 105, 100, 126, 49, 57]]"
    by (simp add: py_split_def is_space_def)
  have s2: "py_lower plain_env (py_strip [99, 111, 118, 105, 100, 126, 49, 57]) \<notin> get_all_punctuations plain_env"
    by (simp add: py_lower_plain py_strip_def is_space_def get_all_punctuations_def plain_env_sel
        string_punctuation_def nltk_english_def cps_def)
  have s3: "py_strip (replace_punctuations [99, 111, 118, 105, 100, 126, 49, 57]) = [99, 111, 118, 105, 100, 126, 49, 57]"
    by (simp add: py_strip_def is_space_def replace_punctuations_def punctuations_def)
  have t3: "remove_stopwords plain_env [99, 111, 118, 105, 100, 126, 49, 57] = [99, 111, 118, 105, 100, 126, 49, 57]"
    using s1 s2 s3 by (simp add: remove_stopwords_one)
  have t4: "remove_numbers plain_env [99, 111, 118, 105, 100, 126, 49, 57] = [99, 111, 118, 105, 100, 126]"
    by (simp add: remove_numbers_def number_pattern_def class_defs)
  have t5: "remove_new_lines (remove_accent_signs [99, 111, 118, 105, 100, 126]) = [99, 111, 118, 105, 100, 126]"
    by (simp add: remove_new_lines_def remove_accent_signs_def accent_pattern_def
        newline_pattern_def)
  have t6: "tokenize plain_env [99, 111, 118, 105, 100, 126] = [[99, 111, 118, 105, 100], []]"
    by (simp add: tokenize_def re_split_def nonword_pattern_def class_defs)
  have t7: "lemmatizer plain_env [[99, 111, 118, 105, 100], []] = [[99, 111, 118, 105, 100], []]"
    by (simp add: lemmatizer_def plain_env_sel nltk_english_def cps_def)
  have t8: "py_join [0x20] [[99, 111, 118, 105, 100], []] = cps ''covid ''"
    by (simp add: cps_def)
  show ?thesis
    unfolding clean_text_stages t0 t1 t2 t3 t4 t5 t6 t7 t8 ..
qed

lemma clean_hello: "clean_text plain_env (cps ''hello'') = cps ''hello''"
proof -
  have t0: "cps ''hello'' = [104, 101, 108, 108, 111]"
    by (simp add: cps_def)
  have t1: "py_lower plain_env (strip_html plain_env [104, 101, 108, 108, 111]) = [104, 101, 108, 108, 111]"
    by (simp add: strip_html_def plain_env_sel py_lower_plain)
  have t2: "remove_urls (remove_between_square_brackets [104, 101, 108, 108, 111]) = [104, 101, 108, 108, 111]"
    by (simp add: remove_between_square_brackets_def bracket_pattern_def remove_urls_def
        url_pattern_def is_space_def)
  have s1: "py_split [104, 101, 108, 108, 111] = [[104, 101, 108, 108, 111]]"
    by (simp add: py_split_def is_space_def)
  have s2: "py_lower plain_env (py_strip [104, 101, 108, 108, 111]) \<notin> get_all_punctuations plain_env"
    by (simp add: py_lower_plain py_strip_def is_space_def get_all_punctuations_def plain_env_sel
        string_punctuation_def nltk_english_def cps_def)
  have s3: "py_strip (replace_punctuations [104, 101, 108, 108, 111]) = [104, 101, 108, 108, 111]"
    by (simp add: py_strip_def is_space_def replace_punctuations_def punctuations_def)
  have t3: "remove_stopwords plain_env [104, 101, 108, 108, 111] = [104, 101, 108, 108, 111]"
    using s1 s2 s3 by (simp add: remove_stopwords_one)
  have t4: "remove_numbers plain_env [104, 101, 108, 108, 111] = [104, 101, 108, 108, 111]"
    by (simp add: remove_numbers_def number_pattern_def class_defs)
  have t5: "remove_new_lines (remove_accent_signs [104, 101, 108, 108, 111]) = [104, 101, 108, 108, 111]"
    by (simp add: remove_new_lines_def remove_accent_signs_def accent_pattern_def
        newline_pattern_def)
  have t6: "tokenize plain_env [104, 101, 108, 108, 111] = [[104, 101, 108, 108, 111]]"
    by (simp add: tokenize_def re_split_def nonword_pattern_def class_defs)
  have t7: "lemmatizer plain_env [[104, 101, 108, 108, 111]] = [[104, 101, 108, 108, 111]]"
    by (simp add: lemmatizer_def plain_env_sel nltk_english_def cps_def)
  have t8: "py_join [0x20] [[104, 101, 108, 108, 111]] = cps ''hello''"
    by (simp add: cps_def)
  show ?thesis
    unfolding clean_text_stages t0 t1 t2 t3 t4 t5 t6 t7 t8 ..
qed

lemma clean_http: "clean_text plain_env (cps ''http'') = cps ''http''"
proof -
  have t0: "cps ''http'' = [104, 116, 116, 112]"
    by (simp add: cps_def)
  have t1: "py_lower plain_env (strip_html plain_env [104, 116, 116, 112]) = [104, 116, 116, 112]"
    by (simp add: strip_html_def plain_env_sel py_lower_plain)
  have t2: "remove_urls (remove_between_square_brackets [104, 116, 116, 112]) = [104, 116, 116, 112]"
    by (simp add: remove_between_square_brackets_def bracket_pattern_def remove_urls_def
        url_pattern_def is_space_def)
  have s1: "py_split [104, 116, 116, 112] = [[104, 116, 116, 112]]"
    by (simp add: py_split_def is_space_def)
  have s2: "py_lower plain_env (py_strip [104, 116, 116, 112]) \<notin> get_all_punctuations plain_env"
    by (simp add: py_lower_plain py_strip_def is_space_def get_all_punctuations_def plain_env_sel
        string_punctuation_def nltk_english_def cps_def)
  have s3: "py_strip (replace_punctuations [104, 116, 116, 112]) = [104, 116, 116, 112]"
    by (simp add: py_strip_def is_space_def replace_punctuations_def punctuations_def)
  have t3: "remove_stopwords plain_env [104, 116, 116, 112] = [104, 116, 116, 112]"
    using s1 s2 s3 by (simp add: remove_stopwords_one)
  have t4: "remove_numbers plain_env [104, 116, 116, 112] = [104, 116, 116, 112]"
    by (simp add: remove_numbers_def number_pattern_def class_defs)
  have t5: "remove_new_lines (remove_accent_signs [104, 116, 116, 112]) = [104, 116, 116, 112]"
    by (simp add: remove_new_lines_def remove_accent_signs_def accent_pattern_def
        newline_pattern_def)
  have t6: "tokenize plain_env [104, 116, 116, 112] = [[104, 116, 116, 112]]"
    by (simp add: tokenize_def re_split_def nonword_pattern_def class_defs)
  have t7: "lemmatizer plain_env [[104, 116, 116, 112]] = [[104, 116, 116, 112]]"
    by (simp add: lemmatizer_def plain_env_sel nltk_english_def cps_def)
  have t8: "py_join [0x20] [[104, 116, 116, 112]] = cps ''http''"
    by (simp add: cps_def)
  show ?thesis
    unfolding clean_text_stages t0 t1 t2 t3 t4 t5 t6 t7 t8 ..
qed

lemma clean_httpx: "clean_text plain_env (cps ''httpx ht'' @ [0x2026] @ cps ''tpx'') = cps ''httpx''"
proof -
  have t0: "cps ''httpx ht'' @ [0x2026] @ cps ''tpx'' = [104, 116, 116, 112, 120, 32, 104, 116, 8230, 116, 112, 120]"
    by (simp add: cps_def)
  have t1: "py_lower plain_env (strip_html plain_env [104, 116, 116, 112, 120, 32, 104, 116, 8230, 116, 112, 120]) = [104, 116, 116, 112, 120, 32, 104, 116, 8230, 116, 112, 120]"
    by (simp add: strip_html_def plain_env_sel py_lower_plain)
  have t2: "remove_urls (remove_between_square_brackets [104, 116, 116, 112, 120, 32, 104, 116, 8230, 116, 112, 120]) = [32, 104, 116, 8230, 116, 112, 120]"
    by (simp add: remove_between_square_brackets_def bracket_pattern_def remove_urls_def
        url_pattern_def is_space_def)
  have s1: "py_split [32, 104, 116, 8230, 116, 112, 120] = [[104, 116, 8230, 116, 112, 120]]"
    by (simp add: py_split_def is_space_def)
  have s2: "py_lower plain_env (py_strip [104, 116, 8230, 116, 112, 120]) \<notin> get_all_punctuations plain_env"
    by (simp add: py_lower_plain py_strip_def is_space_def get_all_punctuations_def plain_env_sel
        string_punctuation_def nltk_english_def cps_def)
  have s3: "py_strip (replace_punctuations [104, 116, 8230, 116, 112, 120]) = [104, 116, 8230, 116, 112, 120]"
    by (simp add: py_strip_def is_space_def replace_punctuations_def punctuations_def)
  have t3: "remove_stopwords plain_env [32, 104, 116, 8230, 116, 112, 120] = [104, 116, 8230, 116, 112, 120]"
    using s1 s2 s3 by (simp add: remove_stopwords_one)
  have t4: "remove_numbers plain_env [104, 116, 8230, 116, 112, 120] = [104, 116, 8230, 116, 112, 120]"
    by (simp add: remove_numbers_def number_pattern_def class_defs)
  have t5: "remove_new_lines (remove_accent_signs [104, 116, 8230, 116, 112, 120]) = [104, 116, 116, 112, 120]"
    by (simp add: remove_new_lines_def remove_accent_signs_def accent_pattern_def
        newline_pattern_def)
  have t6: "tokenize plain_env [104, 116, 116, 112, 120] = [[104, 116, 116, 112, 120]]"
    by (simp add: tokenize_def re_split_def nonword_pattern_def class_defs)
  have t7: "lemmatizer plain_env [[104, 116, 116, 112, 120]] = [[104, 116, 116, 112, 120]]"
    by (simp add: lemmatizer_def plain_env_sel nltk_english_def cps_def)
  have t8: "py_join [0x20] [[104, 116, 116, 112, 120]] = cps ''httpx''"
    by (simp add: cps_def)
  show ?thesis
    unfolding clean_text_stages t0 t1 t2 t3 t4 t5 t6 t7 t8 ..
qed

lemma clean_tilde_hello: "clean_text plain_env (cps ''~hello~'') = cps '' hello ''"
proof -
  have t0: "cps ''~hello~'' = [126, 104, 101, 108, 108, 111, 126]"
    by (simp add: cps_def)
  have t1: "py_lower plain_env (strip_html plain_env [126, 104, 101, 108, 108, 111, 126]) = [126, 104, 101, 108, 108, 111, 126]"
    by (simp add: strip_html_def plain_env_sel py_lower_plain)
  have t2: "remove_urls (remove_between_square_brackets [126, 104, 101, 108, 108, 111, 126]) = [126, 104, 101, 108, 108, 111, 126]"
    by (simp add: remove_between_square_brackets_def bracket_pattern_def remove_urls_def
        url_pattern_def is_space_def)
  have s1: "py_split [126, 104, 101, 108, 108, 111, 126] = [[126, 104, 101, 108, 108, 111, 126]]"
    by (simp add: py_split_def is_space_def)
  have s2: "py_lower plain_env (py_strip [126, 104, 101, 108, 108, 111, 126]) \<notin> get_all_punctuations plain_env"
    by (simp add: py_lower_plain py_strip_def is_space_def get_all_punctuations_def plain_env_sel
        string_punctuation_def nltk_english_def cps_def)
  have s3: "py_strip (replace_punctuations [126, 104, 101, 108, 108, 111, 126]) = [126, 104, 101, 108, 108, 111, 126]"
    by (simp add: py_strip_def is_space_def replace_punctuations_def punctuations_def)
  have t3: "remove_stopwords plain_env [126, 104, 101, 108, 108, 111, 126] = [126, 104, 101, 108, 108, 111, 126]"
    using s1 s2 s3 by (simp add: remove_stopwords_one)
  have t4: "remove_numbers plain_env [126, 104, 101, 108, 108, 111, 126] = [126, 104, 101, 108, 108, 111, 126]"
    by (simp add: remove_numbers_def number_pattern_def class_defs)
  have t5: "remove_new_lines (remove_accent_signs [126, 104, 101, 108, 108, 111, 126]) = [126, 104, 101, 108, 108, 111, 126]"
    by (simp add: remove_new_lines_def remove_accent_signs_def accent_pattern_def
        newline_pattern_def)
  have t6: "tokenize plain_env [126, 104, 101, 108, 108, 111, 126] = [[], [104, 101, 108, 108, 111], []]"
    by (simp add: tokenize_def re_split_def nonword_pattern_def class_defs)
  have t7: "lemmatizer plain_env [[], [104, 101, 108, 108, 111], []] = [[], [104, 101, 108, 108, 111], []]"
    by (simp add: lemmatizer_def plain_env_sel nltk_english_def cps_def)
  have t8: "py_join [0x20] [[], [104, 101, 108, 108, 111], []] = cps '' hello ''"
    by (simp add: cps_def)
  show ?thesis
    unfolding clean_text_stages t0 t1 t2 t3 t4 t5 t6 t7 t8 ..
qed

lemma clean_spaced_hello: "clean_text plain_env (cps '' hello '') = cps ''hello''"
proof -
  have t0: "cps '' hello '' = [32, 104, 101, 108, 108, 111, 32]"
    by (simp add: cps_def)
  have t1: "py_lower plain_env (strip_html plain_env [32, 104, 101, 108, 108, 111, 32]) = [32, 104, 101, 108, 108, 111, 32]"
    by (simp add: strip_html_def plain_env_sel py_lower_plain)
  have t2: "remove_urls (remove_between_square_brackets [32, 104, 101, 108, 108, 111, 32]) = [32, 104, 101, 108, 108, 111, 32]"
    by (simp add: remove_between_square_brackets_def bracket_pattern_def remove_urls_def
        url_pattern_def is_space_def)
  have s1: "py_split [32, 104, 101, 108, 108, 111, 32] = [[104, 101, 108, 108, 111]]"
    by (simp add: py_split_def is_space_def)
  have s2: "py_lower plain_env (py_strip [104, 101, 108, 108, 111]) \<notin> get_all_punctuations plain_env"
    by (simp add: py_lower_plain py_strip_def is_space_def get_all_punctuations_def plain_env_sel
        string_punctuation_def nltk_english_def cps_def)
  have s3: "py_strip (replace_punctuations [104, 101, 108, 108, 111]) = [104, 101, 108, 108, 111]"
    by (simp add: py_strip_def is_space_def replace_punctuations_def punctuations_def)
  have t3: "remove_stopwords plain_env [32, 104, 101, 108, 108, 111, 32] = [104, 101, 108, 108, 111]"
    using s1 s2 s3 by (simp add: remove_stopwords_one)
  have t4: "remove_numbers plain_env [104, 101, 108, 108, 111] = [104, 101, 108, 108, 111]"
    by (simp add: remove_numbers_def number_pattern_def class_defs)
  have t5: "remove_new_lines (remove_accent_signs [104, 101, 108, 108, 111]) = [104, 101, 108, 108, 111]"
    by (simp add: remove_new_lines_def remove_accent_signs_def accent_pattern_def
        newline_pattern_def)
  have t6: "tokenize plain_env [104, 101, 108, 108, 111] = [[104, 101, 108, 108, 111]]"
    by (simp add: tokenize_def re_split_def nonword_pattern_def class_defs)
  have t7: "lemmatizer plain_env [[104, 101, 108, 108, 111]] = [[104, 101, 108, 108, 111]]"
    by (simp add: lemmatizer_def plain_env_sel nltk_english_def cps_def)
  have t8: "py_join [0x20] [[104, 101, 108, 108, 111]] = cps ''hello''"
    by (simp add: cps_def)
  show ?thesis
    unfolding clean_text_stages t0 t1 t2 t3 t4 t5 t6 t7 t8 ..
qed









lemma clean_nested: "clean_text plain_env (cps ''[ab[cd]ef]'') = cps ''ef''"
proof -
  have t0: "cps ''[ab[cd]ef]'' = [91, 97, 98, 91, 99, 100, 93, 101, 102, 93]"
    by (simp add: cps_def)
  have t1: "py_lower plain_env (strip_html plain_env [91, 97, 98, 91, 99, 100, 93, 101, 102, 93]) = [91, 97, 98, 91, 99, 100, 93, 101, 102, 93]"
    by (simp add: strip_html_def plain_env_sel py_lower_plain)
  have t2: "remove_urls (remove_between_square_brackets [91, 97, 98, 91, 99, 100, 93, 101, 102, 93]) = [101, 102, 93]"
    by (simp add: remove_between_square_brackets_def bracket_pattern_def remove_urls_def
        url_pattern_def is_space_def)
  have s1: "py_split [101, 102, 93] = [[101, 102, 93]]"
    by (simp add: py_split_def is_space_def)
  have s2: "py_lower plain_env (py_strip [101, 102, 93]) \<notin> get_all_punctuations plain_env"
    by (simp add: py_lower_plain py_strip_def is_space_def get_all_punctuations_def plain_env_sel
        string_punctuation_def nltk_english_def cps_def)
  have s3: "py_strip (replace_punctuations [101, 102, 93]) = [101, 102]"
    by (simp add: py_strip_def is_space_def replace_punctuations_def punctuations_def)
  have t3: "remove_stopwords plain_env [101, 102, 93] = [101, 102]"
    using s1 s2 s3 by (simp add: remove_stopwords_one)
  have t4: "remove_numbers plain_env [101, 102] = [101, 102]"
    by (simp add: remove_numbers_def number_pattern_def class_defs)
  have t5: "remove_new_lines (remove_accent_signs [101, 102]) = [101, 102]"
    by (simp add: remove_new_lines_def remove_accent_signs_def accent_pattern_def
        newline_pattern_def)
  have t6: "tokenize plain_env [101, 102] = [[101, 102]]"
    by (simp add: tokenize_def re_split_def nonword_pattern_def class_defs)
  have t7: "lemmatizer plain_env [[101, 102]] = [[101, 102]]"
    by (simp add: lemmatizer_def plain_env_sel nltk_english_def cps_def)
  have t8: "py_join [0x20] [[101, 102]] = cps ''ef''"
    by (simp add: cps_def)
  show ?thesis
    unfolding clean_text_stages t0 t1 t2 t3 t4 t5 t6 t7 t8 ..
qed


section \<open>Claims about the cleaner\<close>

text \<open>
  C2, counterexample. A run that is just \<^verbatim>\<open>http\<close> is not deleted, the pattern asking for one
  more character; and in \<^verbatim>\<open>httpx ht...tpx\<close> (with the ellipsis character) the first run is
  deleted by the URL stage, but the later deletion of the ellipsis forms \<^verbatim>\<open>httpx\<close> again,
  so the output contains the run.
\<close>

theorem url_run_in_output:
  "clean_text plain_env (cps ''http'') = cps ''http'' \<and>
   clean_text plain_env (cps ''httpx ht'' @ [0x2026] @ cps ''tpx'') = cps ''httpx''"
  using clean_http clean_httpx by (rule conjI)

text \<open>
  C2, as amended. The URL stage of \<open>clean_text\<close> deletes every whitespace-delimited run
  that begins with \<^verbatim>\<open>http\<close> and has at least one more character, as a whole: the text around
  it is cleaned as if the run were not there. In the text that the stage passes on, for
  any text, \<^verbatim>\<open>http\<close> is nowhere followed by a non-whitespace character.
\<close>

theorem remove_urls_deletes_whole_run:
  assumes "pre = [] \<or> is_space (last pre)" and "post = [] \<or> is_space (hd post)"
    and "rest \<noteq> []" and "\<forall>c\<in>set rest. \<not> is_space c"
  shows "remove_urls (pre @ cps ''http'' @ rest @ post) = remove_urls pre @ remove_urls post \<and>
         (\<forall>c. \<not> is_space c \<longrightarrow> \<not> py_contains (cps ''http'' @ [c]) (remove_urls text))"
proof
  have "remove_urls (pre @ cps ''http'' @ rest @ post) =
          remove_urls pre @ remove_urls (cps ''http'' @ rest @ post)"
    using assms(1) by (rule remove_urls_append)
  also have "remove_urls (cps ''http'' @ rest @ post) = remove_urls post"
    using assms(3,4,2) by (rule remove_urls_run)
  finally show "remove_urls (pre @ cps ''http'' @ rest @ post) = remove_urls pre @ remove_urls post" .
  show "\<forall>c. \<not> is_space c \<longrightarrow> \<not> py_contains (cps ''http'' @ [c]) (remove_urls text)"
  proof (intro allI impI notI)
    fix c
    assume c: "\<not> is_space c" and "py_contains (cps ''http'' @ [c]) (remove_urls text)"
    then obtain a b where ab: "remove_urls text = a @ (cps ''http'' @ [c]) @ b"
      unfolding py_contains_iff by blast
    then have "remove_urls text = a @ (cps ''http'' @ c # b)" by simp
    then have "rmatch url_pattern (cps ''http'' @ c # b) = None" by (rule remove_urls_no_match)
    with c show False by (simp add: url_match_eq cps_def)
  qed
qed

theorem remove_urls_deletes_whole_run_witness:
  "is_space (last (cps ''see '')) \<and> is_space (hd (cps '' now'')) \<and>
   cps ''://x.com'' \<noteq> [] \<and> \<not> (\<exists>c\<in>set (cps ''://x.com''). is_space c) \<and>
   remove_urls (cps ''see '' @ cps ''http'' @ cps ''://x.com'' @ cps '' now'') = cps ''see  now'' \<and>
   \<not> is_space 0x3A \<and>
   \<not> py_contains (cps ''http'' @ [0x3A]) (remove_urls (cps ''see http://x.com now''))"
proof -
  have h1: "is_space (last (cps ''see ''))"
    by (simp add: cps_def is_space_def)
  have h2: "is_space (hd (cps '' now''))"
    by (simp add: cps_def is_space_def)
  have h3: "cps ''://x.com'' \<noteq> []"
    by (simp add: cps_def)
  have h4: "\<forall>c\<in>set (cps ''://x.com''). \<not> is_space c"
    by (simp add: cps_def is_space_def)
  have h5: "\<not> is_space 0x3A"
    by (simp add: is_space_def)
  have a: "remove_urls (cps ''see '') = cps ''see ''"
    by (simp add: remove_urls_def url_pattern_def cps_def is_space_def)
  have b: "remove_urls (cps '' now'') = cps '' now''"
    by (simp add: remove_urls_def url_pattern_def cps_def is_space_def)
  note t = remove_urls_deletes_whole_run[OF disjI2[OF h1] disjI2[OF h2] h3 h4,
      of "cps ''see http://x.com now''"]
  from t have "remove_urls (cps ''see '' @ cps ''http'' @ cps ''://x.com'' @ cps '' now'') = cps ''see  now''"
    by (simp add: a b) (simp add: cps_def)
  moreover from t h5 have "\<not> py_contains (cps ''http'' @ [0x3A]) (remove_urls (cps ''see http://x.com now''))"
    by blast
  ultimately show ?thesis using h1 h2 h3 h4 h5 by blast
qed

text \<open>
  C4. The output of \<open>clean_text\<close> is a function of the input string, the stopword set and
  the lemmatizer (with the markup parser and the character database, which are fixed
  library code): two sets of resources that agree on these give the same output on every
  input, whatever the order or repetition in which the stopwords are listed.
\<close>

theorem clean_text_deterministic:
  assumes "set (nltk_stopwords_english E1) = set (nltk_stopwords_english E2)"
    and "wordnet_lemmatize E1 = wordnet_lemmatize E2"
    and "bs4_get_text E1 = bs4_get_text E2"
    and "ucd_isalpha E1 = ucd_isalpha E2" and "ucd_isdecimal E1 = ucd_isdecimal E2"
    and "ucd_isdigit E1 = ucd_isdigit E2" and "ucd_isnumeric E1 = ucd_isnumeric E2"
    and "ucd_lower E1 = ucd_lower E2"
  shows "clean_text E1 text = clean_text E2 text"
proof -
  have w: "is_word E1 = is_word E2" and d: "is_digit E1 = is_digit E2"
    using assms by (auto simp: is_word_def is_alnum_def is_digit_def fun_eq_iff)
  have "lower_at E1 = lower_at E2"
    using assms by (auto simp: lower_at_def fun_eq_iff Let_def)
  then have l: "py_lower E1 = py_lower E2"
    by (intro ext) (simp add: py_lower_def)
  have h: "strip_html E1 = strip_html E2"
    by (intro ext) (simp add: strip_html_def assms(3))
  have s: "remove_stopwords E1 = remove_stopwords E2"
    by (intro ext) (simp add: remove_stopwords_def get_all_punctuations_def assms(1) l)
  have n: "remove_numbers E1 = remove_numbers E2"
    by (intro ext) (simp add: remove_numbers_def number_pattern_def w d)
  have t: "tokenize E1 = tokenize E2"
    by (intro ext) (simp add: tokenize_def nonword_pattern_def w)
  have "lemmatizer E1 = lemmatizer E2"
    by (intro ext) (simp add: lemmatizer_def assms(1,2))
  with h s n t
  show ?thesis by (simp add: clean_text_def l)
qed

theorem clean_text_deterministic_witness:
  "set (nltk_stopwords_english (plain_env\<lparr>nltk_stopwords_english := rev nltk_english\<rparr>)) =
     set (nltk_stopwords_english plain_env) \<and>
   wordnet_lemmatize (plain_env\<lparr>nltk_stopwords_english := rev nltk_english\<rparr>) =
     wordnet_lemmatize plain_env \<and>
   bs4_get_text (plain_env\<lparr>nltk_stopwords_english := rev nltk_english\<rparr>) = bs4_get_text plain_env \<and>
   ucd_isalpha (plain_env\<lparr>nltk_stopwords_english := rev nltk_english\<rparr>) = ucd_isalpha plain_env \<and>
   ucd_isdecimal (plain_env\<lparr>nltk_stopwords_english := rev nltk_english\<rparr>) =
     ucd_isdecimal plain_env \<and>
   ucd_isdigit (plain_env\<lparr>nltk_stopwords_english := rev nltk_english\<rparr>) = ucd_isdigit plain_env \<and>
   ucd_isnumeric (plain_env\<lparr>nltk_stopwords_english := rev nltk_english\<rparr>) =
     ucd_isnumeric plain_env \<and>
   ucd_lower (plain_env\<lparr>nltk_stopwords_english := rev nltk_english\<rparr>) = ucd_lower plain_env \<and>
   nltk_stopwords_english (plain_env\<lparr>nltk_stopwords_english := rev nltk_english\<rparr>) \<noteq>
     nltk_stopwords_english plain_env \<and>
   clean_text (plain_env\<lparr>nltk_stopwords_english := rev nltk_english\<rparr>) (cps ''covid~19'') =
     clean_text plain_env (cps ''covid~19'')"
proof -
  define E1 where "E1 = plain_env\<lparr>nltk_stopwords_english := rev nltk_english\<rparr>"
  have h1: "set (nltk_stopwords_english E1) = set (nltk_stopwords_english plain_env)"
    by (simp add: E1_def plain_env_sel)
  have h2: "wordnet_lemmatize E1 = wordnet_lemmatize plain_env"
    and h3: "bs4_get_text E1 = bs4_get_text plain_env"
    and h4: "ucd_isalpha E1 = ucd_isalpha plain_env"
    and h5: "ucd_isdecimal E1 = ucd_isdecimal plain_env"
    and h6: "ucd_isdigit E1 = ucd_isdigit plain_env"
    and h7: "ucd_isnumeric E1 = ucd_isnumeric plain_env"
    and h8: "ucd_lower E1 = ucd_lower plain_env"
    by (simp_all add: E1_def)
  have "hd (nltk_stopwords_english E1) \<noteq> hd (nltk_stopwords_english plain_env)"
    by (simp add: E1_def plain_env_sel nltk_english_def cps_def)
  then have ne: "nltk_stopwords_english E1 \<noteq> nltk_stopwords_english plain_env"
    by auto
  note t = clean_text_deterministic[OF h1 h2 h3 h4 h5 h6 h7 h8, of "cps ''covid~19''"]
  show ?thesis
    using h1 h2 h3 h4 h5 h6 h7 h8 ne t unfolding E1_def by blast
qed




text \<open>
  C6, counterexample. The pattern of the bracket stage ends a span at the first closing
  bracket. In \<^verbatim>\<open>[ab[cd]ef]\<close> that is the inner one: the stage deletes \<^verbatim>\<open>[ab[cd]\<close> and leaves
  \<^verbatim>\<open>ef]\<close>, and the output of \<open>clean_text\<close> is \<^verbatim>\<open>ef\<close>, text from inside the bracketed span.
\<close>

theorem nested_span_tail_kept:
  "remove_between_square_brackets (cps ''[ab[cd]ef]'') = cps ''ef]'' \<and>
   clean_text plain_env (cps ''[ab[cd]ef]'') = cps ''ef''"
proof -
  have "remove_between_square_brackets (cps ''[ab[cd]ef]'') = cps ''ef]''"
    by (simp add: remove_between_square_brackets_def bracket_pattern_def cps_def)
  with clean_nested show ?thesis by blast
qed

text \<open>
  C6, as amended. A bracketed span that runs from an opening square bracket to the first
  closing one after it is deleted by the bracket stage, brackets and content, wherever it
  is in the text: the stage returns what it leaves of the text before the span (up to a
  bracket that is still open there, from which the match then starts) followed by what it
  leaves of the text after the span. The later stages of \<open>clean_text\<close> work on that, so
  nothing of the span enters into the output. (In a nested span the first closing bracket
  is an inner one, and what follows it is kept.) And no opening bracket is in the output
  for any input, for a lemmatizer that puts no opening bracket into the lemma of a token
  that has none. The text here is the input lower-cased, the markup removed, as the stage
  receives it.
\<close>

theorem bracketed_span_deleted:
  assumes "\<forall>tok. 0x5B \<notin> set tok \<longrightarrow> 0x5B \<notin> set (wordnet_lemmatize E tok)"
    and "py_lower E (strip_html E text) = p @ [0x5B] @ w @ [0x5D] @ q"
    and "0x5D \<notin> set w"
  shows "remove_between_square_brackets (p @ [0x5B] @ w @ [0x5D] @ q) =
           takeWhile (\<lambda>c. c \<noteq> 0x5B) (remove_between_square_brackets p) @
           remove_between_square_brackets q
    \<and> clean_text E text =
        py_join [0x20] (lemmatizer E (tokenize E (remove_new_lines (remove_accent_signs
          (remove_numbers E (remove_stopwords E (remove_urls
            (takeWhile (\<lambda>c. c \<noteq> 0x5B) (remove_between_square_brackets p) @
             remove_between_square_brackets q))))))))
    \<and> 0x5B \<notin> set (clean_text E text)"
proof -
  note span = remove_brackets_span_anywhere[OF assms(3), of p q]
  have "0x5B \<notin> set (clean_text E text)"
  proof
    assume "0x5B \<in> set (clean_text E text)"
    from clean_text_chars[OF this]
    obtain tok where tok: "0x5B \<in> set (wordnet_lemmatize E tok)" "\<forall>d\<in>set tok. is_word E d"
      by auto
    have "\<not> is_word E 0x5B" by (simp add: is_word_def is_alnum_def)
    with tok(2) have "0x5B \<notin> set tok" by auto
    with assms(1) tok(1) show False by auto
  qed
  with span show ?thesis
    by (simp add: clean_text_stages assms(2))
qed

theorem bracketed_span_deleted_witness:
  "wordnet_lemmatize plain_env = (\<lambda>word. word) \<and>
   py_lower plain_env (strip_html plain_env (cps ''see [ad] hello'')) =
     cps ''see '' @ [0x5B] @ cps ''ad'' @ [0x5D] @ cps '' hello'' \<and>
   0x5D \<notin> set (cps ''ad'') \<and>
   remove_between_square_brackets (cps ''see '' @ [0x5B] @ cps ''ad'' @ [0x5D] @ cps '' hello'') =
     cps ''see  hello'' \<and>
   clean_text plain_env (cps ''see [ad] hello'') =
     py_join [0x20] (lemmatizer plain_env (tokenize plain_env (remove_new_lines (remove_accent_signs
       (remove_numbers plain_env (remove_stopwords plain_env (remove_urls (cps ''see  hello'')))))))) \<and>
   0x5B \<notin> set (clean_text plain_env (cps ''see [ad] hello''))"
proof -
  have l: "wordnet_lemmatize plain_env = (\<lambda>word. word)"
    by (simp add: plain_env_sel)
  then have h1: "\<forall>tok. 0x5B \<notin> set tok \<longrightarrow> 0x5B \<notin> set (wordnet_lemmatize plain_env tok)"
    by simp
  have h2: "py_lower plain_env (strip_html plain_env (cps ''see [ad] hello'')) =
     cps ''see '' @ [0x5B] @ cps ''ad'' @ [0x5D] @ cps '' hello''"
    by (simp add: strip_html_def plain_env_sel py_lower_plain cps_def)
  have h3: "0x5D \<notin> set (cps ''ad'')"
    by (simp add: cps_def)
  have r: "takeWhile (\<lambda>c. c \<noteq> 0x5B) (remove_between_square_brackets (cps ''see '')) @
           remove_between_square_brackets (cps '' hello'') = cps ''see  hello''"
    by (simp add: remove_between_square_brackets_def bracket_pattern_def cps_def)
  note t = bracketed_span_deleted[OF h1 h2 h3, unfolded r]
  from l h2 h3 t show ?thesis by blast
qed

text \<open>
  C8. \<open>clean_text\<close> is not idempotent: the cleaned form of \<^verbatim>\<open>~hello~\<close> is \<^verbatim>\<open>hello\<close> between
  two spaces, and cleaning that again gives \<^verbatim>\<open>hello\<close>.
\<close>

theorem clean_text_not_idempotent:
  "clean_text plain_env (clean_text plain_env (cps ''~hello~'')) \<noteq>
     clean_text plain_env (cps ''~hello~'')"
  by (simp add: clean_tilde_hello clean_spaced_hello) (simp add: cps_def)

text \<open>
  C9. The output of \<open>clean_text\<close> can begin and end with a space: for \<^verbatim>\<open>covid-19\<close> in
  double quotes, the tokenization gives an empty token on each side of \<^verbatim>\<open>covid\<close>; both
  pass the lemmatizer, and the join puts a space next to each.
\<close>

theorem clean_text_boundary_spaces: "clean_text plain_env ([0x22] @ cps ''covid-19'' @ [0x22]) = cps '' covid ''"
proof -
  have t0: "[0x22] @ cps ''covid-19'' @ [0x22] = [34, 99, 111, 118, 105, 100, 45, 49, 57, 34]"
    by (simp add: cps_def)
  have t1: "py_lower plain_env (strip_html plain_env [34, 99, 111, 118, 105, 100, 45, 49, 57, 34]) = [34, 99, 111, 118, 105, 100, 45, 49, 57, 34]"
    by (simp add: strip_html_def plain_env_sel py_lower_plain)
  have t2: "remove_urls (remove_between_square_brackets [34, 99, 111, 118, 105, 100, 45, 49, 57, 34]) = [34, 99, 111, 118, 105, 100, 45, 49, 57, 34]"
    by (simp add: remove_between_square_brackets_def bracket_pattern_def remove_urls_def
        url_pattern_def is_space_def)
  have s1: "py_split [34, 99, 111, 118, 105, 100, 45, 49, 57, 34] = [[34, 99, 111, 118, 105, 100, 45, 49, 57, 34]]"
    by (simp add: py_split_def is_space_def)
  have s2: "py_lower plain_env (py_strip [34, 99, 111, 118, 105, 100, 45, 49, 57, 34]) \<notin> get_all_punctuations plain_env"
    by (simp add: py_lower_plain py_strip_def is_space_def get_all_punctuations_def plain_env_sel
        string_punctuation_def nltk_english_def cps_def)
  have s3: "py_strip (replace_punctuations [34, 99, 111, 118, 105, 100, 45, 49, 57, 34]) = [34, 99, 111, 118, 105, 100, 32, 49, 57, 34]"
    by (simp add: py_strip_def is_space_def replace_punctuations_def punctuations_def)
  have t3: "remove_stopwords plain_env [34, 99, 111, 118, 105, 100, 45, 49, 57, 34] = [34, 99, 111, 118, 105, 100, 32, 49, 57, 34]"
    using s1 s2 s3 by (simp add: remove_stopwords_one)
  have t4: "remove_numbers plain_env [34, 99, 111, 118, 105, 100, 32, 49, 57, 34] = [34, 99, 111, 118, 105, 100, 32, 34]"
    by (simp add: remove_numbers_def number_pattern_def class_defs)
  have t5: "remove_new_lines (remove_accent_signs [34, 99, 111, 118, 105, 100, 32, 34]) = [34, 99, 111, 118, 105, 100, 32, 34]"
    by (simp add: remove_new_lines_def remove_accent_signs_def accent_pattern_def
        newline_pattern_def)
  have t6: "tokenize plain_env [34, 99, 111, 118, 105, 100, 32, 34] = [[], [99, 111, 118, 105, 100], []]"
    by (simp add: tokenize_def re_split_def nonword_pattern_def class_defs)
  have t7: "lemmatizer plain_env [[], [99, 111, 118, 105, 100], []] = [[], [99, 111, 118, 105, 100], []]"
    by (simp add: lemmatizer_def plain_env_sel nltk_english_def cps_def)
  have t8: "py_join [0x20] [[], [99, 111, 118, 105, 100], []] = cps '' covid ''"
    by (simp add: cps_def)
  show ?thesis
    unfolding clean_text_stages t0 t1 t2 t3 t4 t5 t6 t7 t8 ..
qed


section \<open>Properties of the pipeline\<close>

lemma df_cached: "priv_df s = Some d \<Longrightarrow> df K s = (Inr d, s)"
  by (simp add: df_def)


lemma cleanup_text_cached:
  assumes "priv_df s = Some d"
  shows "cleanup_text E K s =
           (if ''text'' \<notin> set (df_columns d) then (Inl (KeyError ''text''), s)
            else
              (case series_apply (clean_cell E) (map (\<lambda>(i, r). (i, doc_text r)) (df_rows d)) of
                 Inl e \<Rightarrow> (Inl e, s)
               | Inr cleaned \<Rightarrow>
                   (Inr (),
                    s\<lparr>priv_df := Some (d\<lparr>df_rows :=
                         map2 (\<lambda>(i, r) (j, t). (i, r\<lparr>doc_text := t\<rparr>)) (df_rows d) cleaned\<rparr>)\<rparr>)))"
  by (simp add: cleanup_text_def df_cached[OF assms] split: sum.splits)

lemma series_apply_Inr:
  "series_apply f xs = Inr ys \<Longrightarrow> list_all2 (\<lambda>(i, x) (j, y). i = j \<and> f x = Inr y) xs ys"
  by (induction f xs arbitrary: ys rule: series_apply.induct) (auto split: sum.splits)


lemma split_cached_df:
  assumes "priv_df s = Some d" and "priv_split s = None"
  shows "split K s =
           (case TrainTestSplit_init K d of
              Inl e \<Rightarrow> (Inl e, s)
            | Inr sp \<Rightarrow> (Inr sp, s\<lparr>priv_split := Some sp\<rparr>))"
  using assms by (simp add: split_def df_cached)


lemma Vectorize_init_other:
  "Vectorize_init K sp (Other obj) out =
     (Inl (RuntimeError ''Unable to determine the vectorizer type.''), out)"
  by (simp add: Vectorize_init_def)

lemma create_data_frame_fields:
  "create_data_frame K s = (r, s1) \<Longrightarrow>
     priv_df s1 = priv_df s \<and> priv_split s1 = priv_split s \<and> priv_vectorize s1 = priv_vectorize s \<and>
     model s1 = model s \<and> vectorizer_type s1 = vectorizer_type s \<and> stdout s1 = stdout s \<and>
     true_news s1 = true_news s \<and> fake_news s1 = fake_news s \<and> sample_size s1 = sample_size s"
  by (auto simp: create_data_frame_def Let_def split: prod.splits sum.splits)

lemma df_fields:
  "df K s = (r, s1) \<Longrightarrow>
     priv_split s1 = priv_split s \<and> priv_vectorize s1 = priv_vectorize s \<and>
     model s1 = model s \<and> vectorizer_type s1 = vectorizer_type s \<and> stdout s1 = stdout s \<and>
     true_news s1 = true_news s \<and> fake_news s1 = fake_news s \<and> sample_size s1 = sample_size s"
  by (cases "priv_df s")
    (auto simp: df_def dest!: create_data_frame_fields split: prod.splits sum.splits)

lemma cleanup_text_fields:
  assumes "cleanup_text E K s = (r, s1)"
  shows "priv_split s1 = priv_split s \<and> priv_vectorize s1 = priv_vectorize s \<and>
     model s1 = model s \<and> vectorizer_type s1 = vectorizer_type s \<and> stdout s1 = stdout s \<and>
     true_news s1 = true_news s \<and> fake_news s1 = fake_news s \<and> sample_size s1 = sample_size s"
proof -
  obtain r1 sa where a: "df K s = (r1, sa)" by (cases "df K s")
  obtain r2 sb where b: "df K sa = (r2, sb)" by (cases "df K sa")
  note fa = df_fields[OF a] and fb = df_fields[OF b]
  from assms show ?thesis
    unfolding cleanup_text_def a
    using fa fb b by (auto split: sum.splits if_splits)
qed

lemma pre_processor_fields:
  assumes "pre_processor E K s = (r, s1)"
  shows "priv_split s1 = priv_split s \<and> priv_vectorize s1 = priv_vectorize s \<and>
     model s1 = model s \<and> vectorizer_type s1 = vectorizer_type s \<and> stdout s1 = stdout s \<and>
     true_news s1 = true_news s \<and> fake_news s1 = fake_news s \<and> sample_size s1 = sample_size s"
proof -
  obtain r1 sa where a: "create_data_frame K s = (r1, sa)" by (cases "create_data_frame K s")
  note fa = create_data_frame_fields[OF a]
  show ?thesis
  proof (cases r1)
    case (Inl e)
    with assms a fa show ?thesis by (simp add: pre_processor_def)
  next
    case (Inr d)
    with assms a have "cleanup_text E K sa = (r, s1)" by (simp add: pre_processor_def)
    from cleanup_text_fields[OF this] fa show ?thesis by simp
  qed
qed

lemma cleanup_text_sets_cache:
  assumes "cleanup_text E K s = (Inr u, s1)"
  shows "\<exists>d. priv_df s1 = Some d"
  using assms unfolding cleanup_text_def
  by (auto split: sum.splits prod.splits if_splits)

lemma pre_processor_sets_cache:
  assumes "pre_processor E K s = (Inr u, s1)"
  shows "\<exists>d. priv_df s1 = Some d"
  using assms cleanup_text_sets_cache unfolding pre_processor_def
  by (fastforce split: sum.splits prod.splits)

lemma split_fields:
  assumes "split K s = (r, s1)"
  shows "priv_vectorize s1 = priv_vectorize s \<and>
     model s1 = model s \<and> vectorizer_type s1 = vectorizer_type s \<and> stdout s1 = stdout s"
proof (cases "priv_split s")
  case (Some sp)
  with assms show ?thesis by (simp add: split_def)
next
  case None
  obtain r1 sa where a: "df K s = (r1, sa)" by (cases "df K s")
  note fa = df_fields[OF a]
  from assms None a fa show ?thesis
    by (auto simp: split_def split: sum.splits)
qed

lemma run_other_vectorizer:
  assumes "priv_vectorize s = None" and "model s = Some est" and "vectorizer_type s = Other obj"
  shows "run E K s =
           (case pre_processor E K s of
              (Inl e, s1) \<Rightarrow> (Inl e, s1)
            | (Inr u, s1) \<Rightarrow>
                (case split K s1 of
                   (Inl e, s2) \<Rightarrow> (Inl e, s2)
                 | (Inr sp, s2) \<Rightarrow>
                     (Inl (RuntimeError ''Unable to determine the vectorizer type.''), s2)))"
proof -
  obtain r s1 where p: "pre_processor E K s = (r, s1)" by (cases "pre_processor E K s")
  note f1 = pre_processor_fields[OF p]
  obtain r2 s2 where sp: "split K s1 = (r2, s2)" by (cases "split K s1")
  note f2 = split_fields[OF sp]
  have v: "vectorize K s1 =
          (case r2 of Inl e \<Rightarrow> (Inl e, s2)
           | Inr sp \<Rightarrow> (Inl (RuntimeError ''Unable to determine the vectorizer type.''), s2))"
    using f1 f2 assms by (simp add: vectorize_def sp Vectorize_init_other split: sum.splits)
  show ?thesis
    using f1 assms(2) by (simp add: run_def p fit_def v sp split: sum.splits)
qed

lemma pre_processor_eq:
  assumes "priv_df s = None"
  shows "pre_processor E K s =
     (case assemble (true_news s) (fake_news s) of
        Inl e \<Rightarrow> (Inl e, s)
      | Inr d \<Rightarrow>
          (let g = snd (df_sample K (rng s) (df_rows d));
               kept = d\<lparr>df_rows := head (sample_size s) (fst (df_sample K g (df_rows d)))\<rparr>;
               s1 = s\<lparr>rng := snd (df_sample K g (df_rows d)), priv_df := Some kept\<rparr>
           in if ''text'' \<notin> set (df_columns d) then (Inl (KeyError ''text''), s1)
              else
                (case series_apply (clean_cell E) (map (\<lambda>(i, r). (i, doc_text r)) (df_rows kept)) of
                   Inl e \<Rightarrow> (Inl e, s1)
                 | Inr cleaned \<Rightarrow>
                     (Inr (),
                      s1\<lparr>priv_df := Some (kept\<lparr>df_rows :=
                           map2 (\<lambda>(i, r) (j, t). (i, r\<lparr>doc_text := t\<rparr>)) (df_rows kept) cleaned\<rparr>)\<rparr>))))"
proof (cases "assemble (true_news s) (fake_news s)")
  case (Inl e)
  then show ?thesis by (simp add: pre_processor_def create_data_frame_def)
next
  case (Inr d)
  define g where "g = snd (df_sample K (rng s) (df_rows d))"
  define kept where "kept = d\<lparr>df_rows := head (sample_size s) (fst (df_sample K g (df_rows d)))\<rparr>"
  define s1 where "s1 = s\<lparr>rng := snd (df_sample K g (df_rows d)), priv_df := Some kept\<rparr>"
  have a: "create_data_frame K s =
      (Inr (d\<lparr>df_rows := head (sample_size s) (fst (df_sample K (rng s) (df_rows d)))\<rparr>), s\<lparr>rng := g\<rparr>)"
    by (simp add: create_data_frame_def Inr g_def split: prod.splits)
  have b: "create_data_frame K (s\<lparr>rng := g\<rparr>) = (Inr kept, s\<lparr>rng := snd (df_sample K g (df_rows d))\<rparr>)"
    by (simp add: create_data_frame_def Inr kept_def split: prod.splits)
  have c: "df K (s\<lparr>rng := g\<rparr>) = (Inr kept, s1)"
    using assms by (simp add: df_def b s1_def)
  have d: "priv_df s1 = Some kept" by (simp add: s1_def)
  have "pre_processor E K s = cleanup_text E K (s\<lparr>rng := g\<rparr>)"
    by (simp add: pre_processor_def a)
  also have "\<dots> = cleanup_text E K s1"
    by (simp add: cleanup_text_def c df_cached[OF d])
  finally have e: "pre_processor E K s = cleanup_text E K s1" .
  show ?thesis
    unfolding e cleanup_text_cached[OF d] Inr
    by (simp add: Let_def g_def kept_def s1_def split: sum.splits)
qed










lemma Model_init_fields:
  assumes "Model_init K true_path fake_path vt mt n g = Inr s"
  shows "read_csv K true_path = Inr (true_news s)" and "read_csv K fake_path = Inr (fake_news s)"
    and "priv_df s = None" and "priv_split s = None" and "priv_vectorize s = None"
    and "vectorizer_type s = vt" and "model s = create_model mt"
  using assms by (auto simp: Model_init_def split: sum.splits)

lemma create_model_member: "\<exists>est. create_model (Member m) = Some est"
  by (cases m) (simp_all add: create_model_def)

lemma run_no_model:
  assumes "model s = None"
  shows "run E K s =
           (case pre_processor E K s of
              (Inl e, s1) \<Rightarrow> (Inl e, s1)
            | (Inr u, s1) \<Rightarrow> (Inl (AttributeError ''fit''), s1))"
proof -
  obtain r s1 where p: "pre_processor E K s = (r, s1)" by (cases "pre_processor E K s")
  from pre_processor_fields[OF p] assms have "model s1 = None" by simp
  then show ?thesis by (simp add: run_def p fit_def split: sum.splits)
qed

subsection \<open>The generator after the sample is drawn\<close>













subsection \<open>The pipeline on concrete data\<close>

lemma plain_libs_sel:
  "read_csv plain_libs =
     (\<lambda>path. if path = ''True.csv'' then Inr true_csv
             else if path = ''Fake.csv'' then Inr fake_csv
             else if path = ''Empty.csv'' then Inr (news_table [])
             else if path = ''True6.csv'' then Inr true6_csv
             else if path = ''Fake6.csv'' then Inr fake6_csv
             else if path = ''Gap.csv'' then Inr gap_csv
             else if path = ''Undated.csv'' then Inr undated_csv
             else Inl (LibraryError ''FileNotFoundError''))"
  "df_sample plain_libs = (\<lambda>g rows. (rotate g rows, Suc g))"
  "train_test_split plain_libs = stratified_split"
  "fit_transform plain_libs =
     (\<lambda>v docs. case learn_vocabulary docs of Inl e \<Rightarrow> Inl e | Inr vocab \<Rightarrow> count_terms vocab docs)"
  "transform plain_libs =
     (\<lambda>v fitted_on docs. case learn_vocabulary fitted_on of
                            Inl e \<Rightarrow> Inl e
                          | Inr vocab \<Rightarrow> count_terms vocab docs)"
  "shape plain_libs = (\<lambda>x. (length (term_counts x), length (vocabulary x)))"
  "estimator_fit plain_libs = (\<lambda>est x ys g. (Inr (class_counts ys), g))"
  "estimator_predict plain_libs = (\<lambda>f x. Inr (map (\<lambda>row. most_frequent f) (term_counts x)))"
  "sk_accuracy_score plain_libs =
     (\<lambda>ys zs. if length ys \<noteq> length zs
               then Inl (ValueError ''Found input variables with inconsistent numbers of samples'')
               else Inr (length (filter (\<lambda>(y, z). y = z) (zip ys zs)), length ys))"
  "sk_classification_report plain_libs =
     (\<lambda>ys zs. if length (remdups (ys @ zs)) \<noteq> 2
               then Inl (ValueError ''Number of classes does not match size of target_names'')
               else Inr ''report'')"
  by (simp_all add: plain_libs_def)






lemma Model_init_plain:
  "Model_init plain_libs ''True.csv'' ''Fake.csv'' vt mt 1000 0 = Inr (fresh_model true_csv fake_csv vt mt)"
  "Model_init plain_libs ''True.csv'' ''Empty.csv'' vt mt 1000 0 =
     Inr (fresh_model true_csv (news_table []) vt mt)"
  "Model_init plain_libs ''True.csv'' ''Gap.csv'' vt mt 1000 0 = Inr (fresh_model true_csv gap_csv vt mt)"
  "Model_init plain_libs ''Undated.csv'' ''Undated.csv'' vt mt 1000 0 =
     Inr (fresh_model undated_csv undated_csv vt mt)"
  "Model_init plain_libs ''True6.csv'' ''Fake6.csv'' vt mt 6 g =
     Inr ((fresh_model true6_csv fake6_csv vt mt)\<lparr>sample_size := 6, rng := g\<rparr>)"
  by (simp_all add: Model_init_def plain_libs_sel fresh_model_def)

lemma column_news: "column ''text'' (news_table ts) = map (\<lambda>t. Str (cps t)) ts"
  by (simp add: column_def news_table_def news_def comp_def)

lemma assemble_news:
  "assemble (news_table ts) (news_table us) =
     Inr \<lparr>df_columns = [''text'', ''category''],
          df_rows = zip [0..<length ts + length us]
                      (map (\<lambda>t. \<lparr>doc_text = Str (cps t), category = 1\<rparr>) ts @
                       map (\<lambda>t. \<lparr>doc_text = Str (cps t), category = 0\<rparr>) us)\<rparr>"
  by (simp add: assemble_def column_news Let_def comp_def) (simp add: news_table_def with_category_def)

lemma fresh_model_sel:
  "priv_df (fresh_model t f vt mt) = None"
  "priv_split (fresh_model t f vt mt) = None"
  "priv_vectorize (fresh_model t f vt mt) = None"
  "true_news (fresh_model t f vt mt) = t"
  "fake_news (fresh_model t f vt mt) = f"
  "sample_size (fresh_model t f vt mt) = 1000"
  "rng (fresh_model t f vt mt) = 0"
  "model (fresh_model t f vt mt) = create_model mt"
  "vectorizer_type (fresh_model t f vt mt) = vt"
  "model_type (fresh_model t f vt mt) = mt"
  "stdout (fresh_model t f vt mt) = []"
  "fitted (fresh_model t f vt mt) = None"
  "priv_score (fresh_model t f vt mt) = None"
  by (simp_all add: fresh_model_def)

lemma pre_processor_mixed:
  "pre_processor plain_env plain_libs (fresh_model true_csv fake_csv vt mt) =
     (Inr (),
      (fresh_model true_csv fake_csv vt mt)
        \<lparr>rng := 2,
          priv_df := Some \<lparr>df_columns = [''text'', ''category''],
            df_rows = [(1, \<lparr>doc_text = Str (cps ''hello''), category = 1\<rparr>),
                       (2, \<lparr>doc_text = Str (cps ''hello''), category = 1\<rparr>),
                       (3, \<lparr>doc_text = Str (cps ''hello''), category = 1\<rparr>),
                       (4, \<lparr>doc_text = Str (cps ''hello''), category = 1\<rparr>),
                       (5, \<lparr>doc_text = Str (cps ''covid ''), category = 0\<rparr>),
                       (6, \<lparr>doc_text = Str (cps ''covid ''), category = 0\<rparr>),
                       (7, \<lparr>doc_text = Str (cps ''covid ''), category = 0\<rparr>),
                       (8, \<lparr>doc_text = Str (cps ''covid ''), category = 0\<rparr>),
                       (9, \<lparr>doc_text = Str (cps ''covid ''), category = 0\<rparr>),
                       (0, \<lparr>doc_text = Str (cps ''hello''), category = 1\<rparr>)]\<rparr>\<rparr>)"
  unfolding pre_processor_eq[OF fresh_model_sel(1)] fresh_model_sel true_csv_def fake_csv_def
    assemble_news
  by (simp add: plain_libs_sel head_def Let_def rotate_drop_take clean_hello clean_covid)


lemma stratified_split_mixed:
  "stratified_split [1, 1, 1, 1, 0, 0, 0, 0, 0, 1] = Inr ([4, 5, 6, 7, 0, 1, 2, 3], [8, 9])"
  by (simp add: stratified_split_def approximate_mode_def class_positions_def Let_def)


lemma split_mixed:
  "fst (split plain_libs (snd (pre_processor plain_env plain_libs (fresh_model true_csv fake_csv vt mt)))) =
     Inr \<lparr>split_df = \<lparr>df_columns = [''text'', ''category''],
            df_rows = [(1, \<lparr>doc_text = Str (cps ''hello''), category = 1\<rparr>),
                       (2, \<lparr>doc_text = Str (cps ''hello''), category = 1\<rparr>),
                       (3, \<lparr>doc_text = Str (cps ''hello''), category = 1\<rparr>),
                       (4, \<lparr>doc_text = Str (cps ''hello''), category = 1\<rparr>),
                       (5, \<lparr>doc_text = Str (cps ''covid ''), category = 0\<rparr>),
                       (6, \<lparr>doc_text = Str (cps ''covid ''), category = 0\<rparr>),
                       (7, \<lparr>doc_text = Str (cps ''covid ''), category = 0\<rparr>),
                       (8, \<lparr>doc_text = Str (cps ''covid ''), category = 0\<rparr>),
                       (9, \<lparr>doc_text = Str (cps ''covid ''), category = 0\<rparr>),
                       (0, \<lparr>doc_text = Str (cps ''hello''), category = 1\<rparr>)]\<rparr>,
          text_train = [(5, Str (cps ''covid '')), (6, Str (cps ''covid '')), (7, Str (cps ''covid '')),
                        (8, Str (cps ''covid '')), (1, Str (cps ''hello'')), (2, Str (cps ''hello'')),
                        (3, Str (cps ''hello'')), (4, Str (cps ''hello''))],
          text_test = [(9, Str (cps ''covid '')), (0, Str (cps ''hello''))],
          category_train = [(5, 0), (6, 0), (7, 0), (8, 0), (1, 1), (2, 1), (3, 1), (4, 1)],
          category_test = [(9, 0), (0, 1)]\<rparr>"
  unfolding pre_processor_mixed
  by (simp add: split_def df_def TrainTestSplit_init_def take_rows_def plain_libs_sel fresh_model_sel
      stratified_split_mixed Let_def)


lemma pre_processor_gap:
  "pre_processor plain_env plain_libs (fresh_model true_csv gap_csv vt mt) =
     (Inl (TypeError ''object of type float has no len()''),
      (fresh_model true_csv gap_csv vt mt)
        \<lparr>rng := 2,
          priv_df := Some \<lparr>df_columns = [''text'', ''category''],
            df_rows = [(1, \<lparr>doc_text = Str (cps ''hello''), category = 1\<rparr>),
                       (2, \<lparr>doc_text = Str (cps ''hello''), category = 1\<rparr>),
                       (3, \<lparr>doc_text = Str (cps ''hello''), category = 1\<rparr>),
                       (4, \<lparr>doc_text = Str (cps ''hello''), category = 1\<rparr>),
                       (5, \<lparr>doc_text = Str (cps ''hello''), category = 0\<rparr>),
                       (6, \<lparr>doc_text = NaN, category = 0\<rparr>),
                       (0, \<lparr>doc_text = Str (cps ''hello''), category = 1\<rparr>)]\<rparr>\<rparr>)"
  unfolding pre_processor_eq[OF fresh_model_sel(1)] fresh_model_sel
  by (simp add: assemble_def with_category_def column_def true_csv_def gap_csv_def news_table_def
      news_def plain_libs_sel head_def Let_def rotate_drop_take clean_hello)

lemma pre_processor_undated:
  "pre_processor plain_env plain_libs (fresh_model undated_csv undated_csv vt mt) =
     (Inl (KeyError ''not found in axis''), fresh_model undated_csv undated_csv vt mt)"
  unfolding pre_processor_eq[OF fresh_model_sel(1)] fresh_model_sel
  by (simp add: assemble_def with_category_def undated_csv_def Let_def)









section \<open>Claims about the pipeline\<close>

text \<open>
  C1, counterexample. \<open>create_model\<close> raises nothing for a selector that is no member of
  \<^verbatim>\<open>ModelType\<close>: it returns \<^verbatim>\<open>None\<close>, the object is built, and the run ends in \<^verbatim>\<open>fit\<close> with
  the attribute error of \<^verbatim>\<open>None.fit\<close>, the files read and the frame sampled and cleaned.
  With a selector that is no member of \<^verbatim>\<open>VectorizerType\<close> the object is built as well (both
  files are read), and the run ends with the error of the \<^verbatim>\<open>Vectorize\<close> constructor when
  the frame has been sampled and cleaned and the split made.
\<close>

theorem selector_error_after_data:
  "create_model (Other (PyStr ''svm'')) = None \<and>
   Model_init plain_libs ''True.csv'' ''Fake.csv'' (Member Tfidf) (Other (PyStr ''svm'')) 1000 0 =
     Inr (fresh_model true_csv fake_csv (Member Tfidf) (Other (PyStr ''svm''))) \<and>
   fst (run plain_env plain_libs (fresh_model true_csv fake_csv (Member Tfidf) (Other (PyStr ''svm'')))) =
     Inl (AttributeError ''fit'') \<and>
   priv_df (snd (run plain_env plain_libs
     (fresh_model true_csv fake_csv (Member Tfidf) (Other (PyStr ''svm''))))) \<noteq> None \<and>
   Model_init plain_libs ''True.csv'' ''Fake.csv'' (Other PyNone) (Member nb) 1000 0 =
     Inr (fresh_model true_csv fake_csv (Other PyNone) (Member nb)) \<and>
   fst (run plain_env plain_libs (fresh_model true_csv fake_csv (Other PyNone) (Member nb))) =
     Inl (RuntimeError ''Unable to determine the vectorizer type.'') \<and>
   priv_df (snd (run plain_env plain_libs (fresh_model true_csv fake_csv (Other PyNone) (Member nb)))) \<noteq>
     None \<and>
   priv_split (snd (run plain_env plain_libs (fresh_model true_csv fake_csv (Other PyNone) (Member nb)))) \<noteq>
     None"
proof -
  have a: "create_model (Other (PyStr ''svm'')) = None"
    by (simp add: create_model_def)
  have "model (fresh_model true_csv fake_csv (Member Tfidf) (Other (PyStr ''svm''))) = None"
    by (simp add: fresh_model_sel a)
  from run_no_model[OF this, of plain_env plain_libs]
  have b:
    "fst (run plain_env plain_libs (fresh_model true_csv fake_csv (Member Tfidf) (Other (PyStr ''svm'')))) =
       Inl (AttributeError ''fit'')"
    "priv_df (snd (run plain_env plain_libs
       (fresh_model true_csv fake_csv (Member Tfidf) (Other (PyStr ''svm''))))) \<noteq> None"
    by (simp_all add: pre_processor_mixed)
  define m where "m = fresh_model true_csv fake_csv (Other PyNone) (Member nb)"
  have i: "priv_vectorize m = None" "model m = Some MultinomialNB" "vectorizer_type m = Other PyNone"
    by (simp_all add: m_def fresh_model_sel create_model_def)
  obtain s1 where p: "pre_processor plain_env plain_libs m = (Inr (), s1)"
    and d1: "priv_df s1 \<noteq> None"
    unfolding m_def pre_processor_mixed by simp
  obtain sp s2 where sp: "split plain_libs s1 = (Inr sp, s2)"
    using split_mixed[of "Other PyNone" "Member nb"] p unfolding m_def
    by (metis fst_conv snd_conv surj_pair)
  have d2: "priv_df s2 \<noteq> None" "priv_split s2 \<noteq> None"
    using sp d1 by (auto simp: split_def df_def split: option.splits sum.splits prod.splits)
  have "run plain_env plain_libs m =
      (Inl (RuntimeError ''Unable to determine the vectorizer type.''), s2)"
    by (simp add: run_other_vectorizer[OF i] p sp)
  with d2 have c: "fst (run plain_env plain_libs m) =
      Inl (RuntimeError ''Unable to determine the vectorizer type.'')"
    "priv_df (snd (run plain_env plain_libs m)) \<noteq> None"
    "priv_split (snd (run plain_env plain_libs m)) \<noteq> None"
    by simp_all
  show ?thesis
    using a b Model_init_plain(1) c unfolding m_def by blast
qed

text \<open>
  C1, as amended. For every vectorizer selector that is no member of \<^verbatim>\<open>VectorizerType\<close>, the
  \<^verbatim>\<open>Vectorize\<close> constructor raises \<^verbatim>\<open>RuntimeError\<close>, whatever split it is given. In the run
  of a model built with such a selector and a member of \<^verbatim>\<open>ModelType\<close>, the error aborts the
  run inside \<^verbatim>\<open>fit\<close>: both files have been read, the frame has been sampled and cleaned,
  and the split has been made and is kept in the object. When the frame cannot be
  assembled or cleaned (a column is missing, a text cell holds no string) the error of
  \<^verbatim>\<open>pre_processor\<close> ends the run instead, before \<^verbatim>\<open>fit\<close>; when the split fails, its error
  does.
\<close>

theorem unsupported_vectorizer_raises_in_fit:
  assumes "Model_init K true_path fake_path (Other obj) (Member m) n g = Inr s"
  shows "(\<forall>sp out. Vectorize_init K sp (Other obj) out =
            (Inl (RuntimeError ''Unable to determine the vectorizer type.''), out))
    \<and> (\<exists>t f. read_csv K true_path = Inr t \<and> read_csv K fake_path = Inr f)
    \<and> (case pre_processor E K s of
          (Inl e, s1) \<Rightarrow> run E K s = (Inl e, s1)
        | (Inr u, s1) \<Rightarrow>
            (\<exists>d. priv_df s1 = Some d \<and>
               run E K s =
                 (case TrainTestSplit_init K d of
                    Inl e \<Rightarrow> (Inl e, s1)
                  | Inr sp \<Rightarrow>
                      (Inl (RuntimeError ''Unable to determine the vectorizer type.''),
                       s1\<lparr>priv_split := Some sp\<rparr>))))"
proof -
  note f = Model_init_fields[OF assms]
  obtain est where est: "model s = Some est" using f(7) create_model_member[of m] by auto
  note r = run_other_vectorizer[OF f(5) est f(6), of E K]
  obtain res s1 where p: "pre_processor E K s = (res, s1)" by (cases "pre_processor E K s")
  have "case pre_processor E K s of
          (Inl e, s1) \<Rightarrow> run E K s = (Inl e, s1)
        | (Inr u, s1) \<Rightarrow>
            (\<exists>d. priv_df s1 = Some d \<and>
               run E K s =
                 (case TrainTestSplit_init K d of
                    Inl e \<Rightarrow> (Inl e, s1)
                  | Inr sp \<Rightarrow>
                      (Inl (RuntimeError ''Unable to determine the vectorizer type.''),
                       s1\<lparr>priv_split := Some sp\<rparr>)))"
  proof (cases res)
    case (Inl e)
    then show ?thesis by (simp add: r p)
  next
    case (Inr u)
    with p pre_processor_sets_cache obtain d where d: "priv_df s1 = Some d" by blast
    have n: "priv_split s1 = None" using pre_processor_fields[OF p] f(4) by simp
    show ?thesis
      by (simp add: r p Inr d split_cached_df[OF d n] split: sum.splits)
  qed
  with f(1,2) show ?thesis
    by (auto simp: Vectorize_init_other)
qed

theorem unsupported_vectorizer_raises_in_fit_witness:
  "Model_init plain_libs ''True.csv'' ''Fake.csv'' (Other PyNone) (Member nb) 1000 0 =
     Inr (fresh_model true_csv fake_csv (Other PyNone) (Member nb)) \<and>
   (\<forall>sp out. Vectorize_init plain_libs sp (Other PyNone) out =
      (Inl (RuntimeError ''Unable to determine the vectorizer type.''), out)) \<and>
   (\<exists>t f. read_csv plain_libs ''True.csv'' = Inr t \<and> read_csv plain_libs ''Fake.csv'' = Inr f) \<and>
   fst (pre_processor plain_env plain_libs (fresh_model true_csv fake_csv (Other PyNone) (Member nb))) =
     Inr () \<and>
   fst (run plain_env plain_libs (fresh_model true_csv fake_csv (Other PyNone) (Member nb))) =
     Inl (RuntimeError ''Unable to determine the vectorizer type.'') \<and>
   map_option (\<lambda>sp. map snd (category_test sp))
     (priv_split (snd (run plain_env plain_libs
        (fresh_model true_csv fake_csv (Other PyNone) (Member nb))))) = Some [0, 1] \<and>
   Model_init plain_libs ''True.csv'' ''Gap.csv'' (Other PyNone) (Member nb) 1000 0 =
     Inr (fresh_model true_csv gap_csv (Other PyNone) (Member nb)) \<and>
   run plain_env plain_libs (fresh_model true_csv gap_csv (Other PyNone) (Member nb)) =
     pre_processor plain_env plain_libs (fresh_model true_csv gap_csv (Other PyNone) (Member nb)) \<and>
   fst (run plain_env plain_libs (fresh_model true_csv gap_csv (Other PyNone) (Member nb))) =
     Inl (TypeError ''object of type float has no len()'') \<and>
   priv_split (snd (run plain_env plain_libs (fresh_model true_csv gap_csv (Other PyNone) (Member nb)))) =
     None \<and>
   Model_init plain_libs ''Undated.csv'' ''Undated.csv'' (Other PyNone) (Member nb) 1000 0 =
     Inr (fresh_model undated_csv undated_csv (Other PyNone) (Member nb)) \<and>
   run plain_env plain_libs (fresh_model undated_csv undated_csv (Other PyNone) (Member nb)) =
     (Inl (KeyError ''not found in axis''),
      fresh_model undated_csv undated_csv (Other PyNone) (Member nb))"
proof -
  have h1: "Model_init plain_libs ''True.csv'' ''Fake.csv'' (Other PyNone) (Member nb) 1000 0 =
     Inr (fresh_model true_csv fake_csv (Other PyNone) (Member nb))"
    by (rule Model_init_plain)
  have h2: "Model_init plain_libs ''True.csv'' ''Gap.csv'' (Other PyNone) (Member nb) 1000 0 =
     Inr (fresh_model true_csv gap_csv (Other PyNone) (Member nb))"
    by (rule Model_init_plain)
  have h3: "Model_init plain_libs ''Undated.csv'' ''Undated.csv'' (Other PyNone) (Member nb) 1000 0 =
     Inr (fresh_model undated_csv undated_csv (Other PyNone) (Member nb))"
    by (rule Model_init_plain)
  note t1 = unsupported_vectorizer_raises_in_fit[OF h1, of plain_env]
  note t2 = unsupported_vectorizer_raises_in_fit[OF h2, of plain_env]
  note t3 = unsupported_vectorizer_raises_in_fit[OF h3, of plain_env]
  have a: "fst (pre_processor plain_env plain_libs (fresh_model true_csv fake_csv (Other PyNone) (Member nb))) =
     Inr ()"
    by (simp add: pre_processor_mixed)
  have b: "fst (run plain_env plain_libs (fresh_model true_csv fake_csv (Other PyNone) (Member nb))) =
        Inl (RuntimeError ''Unable to determine the vectorizer type.'')"
    "map_option (\<lambda>sp. map snd (category_test sp))
       (priv_split (snd (run plain_env plain_libs
          (fresh_model true_csv fake_csv (Other PyNone) (Member nb))))) = Some [0, 1]"
    using t1
    by (simp_all add: pre_processor_mixed TrainTestSplit_init_def take_rows_def plain_libs_sel
        stratified_split_mixed Let_def)
  have c: "run plain_env plain_libs (fresh_model true_csv gap_csv (Other PyNone) (Member nb)) =
     pre_processor plain_env plain_libs (fresh_model true_csv gap_csv (Other PyNone) (Member nb))"
    using t2 by (simp add: pre_processor_gap)
  have d: "fst (run plain_env plain_libs (fresh_model true_csv gap_csv (Other PyNone) (Member nb))) =
     Inl (TypeError ''object of type float has no len()'')"
    "priv_split (snd (run plain_env plain_libs (fresh_model true_csv gap_csv (Other PyNone) (Member nb)))) =
     None"
    unfolding c pre_processor_gap by (simp_all add: fresh_model_sel)
  have e: "run plain_env plain_libs (fresh_model undated_csv undated_csv (Other PyNone) (Member nb)) =
     (Inl (KeyError ''not found in axis''),
      fresh_model undated_csv undated_csv (Other PyNone) (Member nb))"
    using t3 by (simp add: pre_processor_undated)
  from t1 have f: "(\<forall>sp out. Vectorize_init plain_libs sp (Other PyNone) out =
      (Inl (RuntimeError ''Unable to determine the vectorizer type.''), out))"
    "(\<exists>t f. read_csv plain_libs ''True.csv'' = Inr t \<and> read_csv plain_libs ''Fake.csv'' = Inr f)"
    by blast+
  show ?thesis
    using h1 f a b h2 c d h3 e by blast
qed









end
